theory Spec2Isabelle
  imports Complex_Main
begin

section \<open>Numbers and pandas series\<close>

text \<open>
  The Python code computes with IEEE doubles. A value of the embedding is a finite
  real number, one of the two infinities, or NaN; signed zeros are not told apart.
  Two kinds of arithmetic are kept apart.

  The arithmetic of the backtest loop, of the returned statistics and of the universe
  scores is a parameter, the record \<open>arith\<close> below: the results of these computations
  depend on how each operation rounds, so every operation of the source is an
  application of the corresponding field, and what is proved of them holds for every
  arithmetic, the one of the machine included.

  The indicator columns of the strategies (rolling mean, rolling standard deviation,
  RSI) are computed inside pandas. Their special values are modelled (a division by
  zero gives an infinity or NaN and raises nothing, a window that is not yet full
  gives NaN); on finite values they are the exact real results, so the rounding
  inside pandas is not modelled there. The regime classifier, whose result hangs on
  the last bit of three rolling means, takes the rolling mean as a parameter instead.
\<close>

datatype fval = Fin real | PInf | NInf | NaN

text \<open>Addition, negation, subtraction, multiplication and division of doubles.
  A finite non-zero value divided by zero is an infinity, zero by zero is NaN:
  pandas and numpy do not raise on a division by zero.\<close>

fun fadd :: "fval \<Rightarrow> fval \<Rightarrow> fval" where
  "fadd NaN _ = NaN"
| "fadd _ NaN = NaN"
| "fadd (Fin a) (Fin b) = Fin (a + b)"
| "fadd PInf NInf = NaN"
| "fadd NInf PInf = NaN"
| "fadd PInf _ = PInf"
| "fadd _ PInf = PInf"
| "fadd NInf _ = NInf"
| "fadd _ NInf = NInf"

fun fneg :: "fval \<Rightarrow> fval" where
  "fneg (Fin a) = Fin (- a)"
| "fneg PInf = NInf"
| "fneg NInf = PInf"
| "fneg NaN = NaN"

definition fsub :: "fval \<Rightarrow> fval \<Rightarrow> fval" where
  "fsub a b = fadd a (fneg b)"

fun fsign_inf :: "bool \<Rightarrow> fval" where
  "fsign_inf True = PInf"
| "fsign_inf False = NInf"

fun fmul :: "fval \<Rightarrow> fval \<Rightarrow> fval" where
  "fmul NaN _ = NaN"
| "fmul _ NaN = NaN"
| "fmul (Fin a) (Fin b) = Fin (a * b)"
| "fmul (Fin a) PInf = (if a = 0 then NaN else fsign_inf (0 < a))"
| "fmul (Fin a) NInf = (if a = 0 then NaN else fsign_inf (a < 0))"
| "fmul PInf (Fin b) = (if b = 0 then NaN else fsign_inf (0 < b))"
| "fmul NInf (Fin b) = (if b = 0 then NaN else fsign_inf (b < 0))"
| "fmul PInf PInf = PInf"
| "fmul NInf NInf = PInf"
| "fmul PInf NInf = NInf"
| "fmul NInf PInf = NInf"

fun fdiv :: "fval \<Rightarrow> fval \<Rightarrow> fval" where
  "fdiv NaN _ = NaN"
| "fdiv _ NaN = NaN"
| "fdiv (Fin a) (Fin b) =
     (if b \<noteq> 0 then Fin (a / b)
      else if a = 0 then NaN
      else fsign_inf (0 < a))"
| "fdiv (Fin a) PInf = Fin 0"
| "fdiv (Fin a) NInf = Fin 0"
| "fdiv PInf (Fin b) = fsign_inf (0 \<le> b)"
| "fdiv NInf (Fin b) = fsign_inf (b < 0)"
| "fdiv PInf PInf = NaN"
| "fdiv PInf NInf = NaN"
| "fdiv NInf PInf = NaN"
| "fdiv NInf NInf = NaN"

text \<open>Comparisons of doubles: every comparison with NaN is false.\<close>

fun flt :: "fval \<Rightarrow> fval \<Rightarrow> bool" where
  "flt NaN _ = False"
| "flt _ NaN = False"
| "flt (Fin a) (Fin b) = (a < b)"
| "flt NInf NInf = False"
| "flt NInf _ = True"
| "flt _ NInf = False"
| "flt PInf _ = False"
| "flt _ PInf = True"

definition fgt :: "fval \<Rightarrow> fval \<Rightarrow> bool" where
  "fgt a b = flt b a"

fun fle :: "fval \<Rightarrow> fval \<Rightarrow> bool" where
  "fle NaN _ = False"
| "fle _ NaN = False"
| "fle a b = (a = b \<or> flt a b)"

definition fge :: "fval \<Rightarrow> fval \<Rightarrow> bool" where
  "fge a b = fle b a"

text \<open>\<open>a != b\<close> on doubles is true when either side is NaN.\<close>

definition fne :: "fval \<Rightarrow> fval \<Rightarrow> bool" where
  "fne a b = (a = NaN \<or> b = NaN \<or> a \<noteq> b)"

fun fabs :: "fval \<Rightarrow> fval" where
  "fabs (Fin a) = Fin \<bar>a\<bar>"
| "fabs PInf = PInf"
| "fabs NInf = PInf"
| "fabs NaN = NaN"

text \<open>Python's \<open>max(a, b)\<close> keeps \<open>a\<close> unless \<open>b > a\<close>.\<close>

definition py_max :: "fval \<Rightarrow> fval \<Rightarrow> fval" where
  "py_max a b = (if fgt b a then b else a)"

text \<open>The double arithmetic of the machine, as a parameter: \<open>d_lit x\<close> is the double
  that the decimal literal \<open>x\<close> of the source denotes, the four operations are those of
  doubles, and \<open>d_round2 x\<close> is \<open>round(x, 2)\<close>.\<close>

record arith =
  d_lit :: "real \<Rightarrow> fval"
  d_add :: "fval \<Rightarrow> fval \<Rightarrow> fval"
  d_sub :: "fval \<Rightarrow> fval \<Rightarrow> fval"
  d_mul :: "fval \<Rightarrow> fval \<Rightarrow> fval"
  d_div :: "fval \<Rightarrow> fval \<Rightarrow> fval"
  d_round2 :: "fval \<Rightarrow> fval"

text \<open>What is used of the machine's arithmetic where a number is to be computed.
  \<open>near r x\<close>: \<open>r\<close> is within the relative rounding error of a double of the exact
  value \<open>x\<close>, and is \<open>x\<close> itself when \<open>x\<close> is an integer. \<open>in_range\<close>: magnitudes far from
  overflow and underflow (integers up to \<open>2^53\<close> are doubles). \<open>ieee_like\<close>: the
  literals and the four operations are correctly rounded on such values,
  subtraction and multiplication commute with the sign, and \<open>round(x, 2)\<close> is the
  double of a hundredth \<open>k / 100\<close> with \<open>k\<close> nearest to \<open>100 x\<close> (up to the rounding of
  the product \<open>100 x\<close>).\<close>

definition near :: "real \<Rightarrow> real \<Rightarrow> bool" where
  "near r x = (\<bar>r - x\<bar> \<le> \<bar>x\<bar> / 2 ^ 53 \<and> (x \<in> \<int> \<longrightarrow> r = x))"

definition in_range :: "real \<Rightarrow> bool" where
  "in_range x = (\<bar>x\<bar> \<le> 2 ^ 53 \<and> (x = 0 \<or> 1 / 2 ^ 20 \<le> \<bar>x\<bar>))"

definition rounds_to :: "fval \<Rightarrow> real \<Rightarrow> bool" where
  "rounds_to v x = (case v of Fin r \<Rightarrow> near r x | _ \<Rightarrow> False)"

definition ieee_like :: "arith \<Rightarrow> bool" where
  "ieee_like ar =
     ((\<forall>x. in_range x \<longrightarrow> rounds_to (d_lit ar x) x)
      \<and> (\<forall>a b. in_range (a + b) \<longrightarrow> rounds_to (d_add ar (Fin a) (Fin b)) (a + b))
      \<and> (\<forall>a b. in_range (a - b) \<longrightarrow> rounds_to (d_sub ar (Fin a) (Fin b)) (a - b))
      \<and> (\<forall>a b. in_range (a * b) \<longrightarrow> rounds_to (d_mul ar (Fin a) (Fin b)) (a * b))
      \<and> (\<forall>a b. b \<noteq> 0 \<and> in_range (a / b) \<longrightarrow> rounds_to (d_div ar (Fin a) (Fin b)) (a / b))
      \<and> (\<forall>a b. d_sub ar (Fin a) (Fin b) = fneg (d_sub ar (Fin b) (Fin a)))
      \<and> (\<forall>a b. d_mul ar (Fin (- a)) (Fin b) = fneg (d_mul ar (Fin a) (Fin b)))
      \<and> (\<forall>x. \<bar>x\<bar> \<le> 2 ^ 20 \<longrightarrow>
            (\<exists>k::int. \<bar>of_int k - 100 * x\<bar> \<le> 1 / 2 + 1 / 2 ^ 20
                \<and> rounds_to (d_round2 ar (Fin x)) (of_int k / 100))))"

text \<open>Exact arithmetic, for the worked examples: no operation rounds, and
  \<open>round(x, 2)\<close> rounds the exact value to the nearest hundredth, a tie to the even
  neighbour.\<close>

definition py_round2 :: "real \<Rightarrow> real" where
  "py_round2 x =
     (let y = x * 100;
          f = \<lfloor>y\<rfloor>;
          d = y - of_int f
      in of_int (if d < 1 / 2 then f
                 else if d > 1 / 2 then f + 1
                 else if even f then f else f + 1) / 100)"

fun fround2 :: "fval \<Rightarrow> fval" where
  "fround2 (Fin x) = Fin (py_round2 x)"
| "fround2 v = v"

definition exact_arith :: arith where
  "exact_arith =
     \<lparr>d_lit = Fin, d_add = fadd, d_sub = fsub, d_mul = fmul, d_div = fdiv,
      d_round2 = fround2\<rparr>"

text \<open>\<open>series.rolling(window=w).mean()\<close> in exact arithmetic: cell \<open>i\<close> is the mean of
  the \<open>w\<close> cells ending at \<open>i\<close>, and NaN while fewer than \<open>w\<close> cells are available.\<close>

definition rolling_mean :: "nat \<Rightarrow> real list \<Rightarrow> fval list" where
  "rolling_mean w xs =
     map (\<lambda>i. if i + 1 < w then NaN
              else Fin (sum_list (take w (drop (i + 1 - w) xs)) / real w))
         [0..<length xs]"

text \<open>\<open>series.rolling(window=w).std()\<close>: the sample standard deviation (one degree
  of freedom removed) of the \<open>w\<close> cells ending at \<open>i\<close>.\<close>

definition sample_std :: "real list \<Rightarrow> real" where
  "sample_std ws =
     (let m = sum_list ws / real (length ws)
      in sqrt (sum_list (map (\<lambda>x. (x - m)\<^sup>2) ws) / (real (length ws) - 1)))"

definition rolling_std :: "nat \<Rightarrow> real list \<Rightarrow> fval list" where
  "rolling_std w xs =
     map (\<lambda>i. if i + 1 < w \<or> w < 2 then NaN
              else Fin (sample_std (take w (drop (i + 1 - w) xs))))
         [0..<length xs]"

text \<open>\<open>series.diff()\<close> on a series of finite values: the first cell is NaN (here
  \<open>None\<close>), cell \<open>i\<close> is \<open>xs[i] - xs[i-1]\<close>.\<close>

fun diffs :: "real list \<Rightarrow> real list" where
  "diffs (x # y # ys) = (y - x) # diffs (y # ys)"
| "diffs _ = []"

definition diff_series :: "real list \<Rightarrow> real option list" where
  "diff_series xs = (if xs = [] then [] else None # map Some (diffs xs))"

text \<open>\<open>delta.where(delta > 0, 0)\<close> and \<open>delta.where(delta < 0, 0)\<close>: a cell is kept
  where the condition holds and replaced by 0 elsewhere; the condition is false on
  NaN, so the result has no NaN.\<close>

definition where_gt0 :: "real option list \<Rightarrow> real list" where
  "where_gt0 delta = map (\<lambda>d. case d of None \<Rightarrow> 0 | Some v \<Rightarrow> if v > 0 then v else 0) delta"

definition where_lt0 :: "real option list \<Rightarrow> real list" where
  "where_lt0 delta = map (\<lambda>d. case d of None \<Rightarrow> 0 | Some v \<Rightarrow> if v < 0 then v else 0) delta"

section \<open>Candles\<close>

record candle =
  ts :: int
  open_price :: real
  high :: real
  low :: real
  close :: real
  volume :: real

datatype py_error = ValueError | KeyError | IndexError | ZeroDivisionError

section \<open>Market regime (market\_analysis.py)\<close>

datatype regime = UPTREND | DOWNTREND | SIDEWAYS

text \<open>\<open>MarketAnalyzer.analyze_market_regime\<close>. Fewer than 120 rows raise
  \<open>ValueError\<close>. The three moving averages are columns that pandas computes; the
  classifier reads their last cells. Which of two nearly equal averages is the
  larger depends on how pandas accumulates the window sums in doubles, so the
  computation is the parameter \<open>sma\<close>: \<open>sma w closes\<close> stands for
  \<open>closes.rolling(window=w).mean().iloc[-1]\<close>. A chained comparison \<open>a > b > c > d\<close> is
  \<open>a > b and b > c and c > d\<close>, and a comparison with NaN is false.\<close>

definition analyze_market_regime ::
    "(nat \<Rightarrow> real list \<Rightarrow> fval) \<Rightarrow> candle list \<Rightarrow> py_error + regime" where
  "analyze_market_regime sma btc_ohlcv_df =
     (if length btc_ohlcv_df < 120 then Inl ValueError
      else
        let closes = map close btc_ohlcv_df;
            current_price = Fin (last closes);
            sma20 = sma 20 closes;
            sma60 = sma 60 closes;
            sma120 = sma 120 closes
        in if fgt current_price sma20 \<and> fgt sma20 sma60 \<and> fgt sma60 sma120
           then Inr UPTREND
           else if flt current_price sma20 \<and> flt sma20 sma60 \<and> flt sma60 sma120
           then Inr DOWNTREND
           else Inr SIDEWAYS)"

text \<open>The moving average in exact arithmetic, for the worked examples.\<close>

definition exact_sma :: "nat \<Rightarrow> real list \<Rightarrow> fval" where
  "exact_sma w closes = last (rolling_mean w closes)"

section \<open>Strategies (strategy\_base.py)\<close>

text \<open>The RSI series both example strategies compute inline:
  \<^verbatim>\<open>
  delta = ohlcv_df['close'].diff()
  gain = (delta.where(delta > 0, 0)).rolling(window=period).mean()
  loss = (-delta.where(delta < 0, 0)).rolling(window=period).mean()
  rs = gain / loss
  rsi = 100 - (100 / (1 + rs))
  \<close>
  The division of the two series is a division of doubles: no exception is raised
  where \<open>loss\<close> is 0.\<close>

definition rsi_gain :: "nat \<Rightarrow> real list \<Rightarrow> fval list" where
  "rsi_gain period closes = rolling_mean period (where_gt0 (diff_series closes))"

definition rsi_loss :: "nat \<Rightarrow> real list \<Rightarrow> fval list" where
  "rsi_loss period closes =
     rolling_mean period (map uminus (where_lt0 (diff_series closes)))"

definition rsi_of_rs :: "fval \<Rightarrow> fval" where
  "rsi_of_rs rs = fsub (Fin 100) (fdiv (Fin 100) (fadd (Fin 1) rs))"

definition rsi_series :: "nat \<Rightarrow> real list \<Rightarrow> fval list" where
  "rsi_series period closes =
     map rsi_of_rs (map2 fdiv (rsi_gain period closes) (rsi_loss period closes))"

text \<open>\<open>MomentumStrategy.check_entry_signal\<close> (rsi\_period 14, rsi\_oversold 30,
  sma\_short 20, sma\_long 50).\<close>

definition momentum_check_entry_signal :: "candle list \<Rightarrow> bool" where
  "momentum_check_entry_signal ohlcv_df =
     (if length ohlcv_df < 50 then False
      else
        let closes = map close ohlcv_df;
            rsi = rsi_series 14 closes;
            sma_short = rolling_mean 20 closes;
            sma_long = rolling_mean 50 closes;
            current_rsi = last rsi;
            current_sma_short = last sma_short;
            current_sma_long = last sma_long
        in if flt current_rsi (Fin 30) \<and> fgt current_sma_short current_sma_long
           then True else False)"

text \<open>\<open>calculate_bollinger_bands\<close>: the rolling mean plus and minus \<open>std_dev\<close> rolling
  standard deviations; returns (upper, middle, lower).\<close>

definition calculate_bollinger_bands ::
    "candle list \<Rightarrow> nat \<Rightarrow> real \<Rightarrow> fval list \<times> fval list \<times> fval list" where
  "calculate_bollinger_bands ohlcv_df period std_dev =
     (let sma = rolling_mean period (map close ohlcv_df);
          std = rolling_std period (map close ohlcv_df);
          upper_band = map2 fadd sma (map (\<lambda>s. fmul s (Fin std_dev)) std);
          lower_band = map2 fsub sma (map (\<lambda>s. fmul s (Fin std_dev)) std)
      in (upper_band, sma, lower_band))"

text \<open>\<open>MeanReversionStrategy.check_entry_signal\<close> (bb\_period 20, bb\_std 2,
  rsi\_period 14, rsi\_oversold 20); it computes its bands inline, by the same
  formula as \<open>calculate_bollinger_bands\<close>.\<close>

definition mean_reversion_check_entry_signal :: "candle list \<Rightarrow> bool" where
  "mean_reversion_check_entry_signal ohlcv_df =
     (if length ohlcv_df < 20 then False
      else
        let closes = map close ohlcv_df;
            (upper_band, sma, lower_band) = calculate_bollinger_bands ohlcv_df 20 2;
            rsi = rsi_series 14 closes;
            current_price = Fin (last closes);
            current_lower = last lower_band;
            current_rsi = last rsi
        in if fle current_price (fmul current_lower (Fin 1.02))
              \<and> flt current_rsi (Fin 20)
           then True else False)"

text \<open>\<open>BollingerBandBreakoutStrategy.check_entry_signal\<close> (periods 20 and 80, 2
  standard deviations).\<close>

definition bollinger_check_entry_signal :: "candle list \<Rightarrow> bool" where
  "bollinger_check_entry_signal ohlcv_df =
     (if length ohlcv_df < 80 then False
      else
        let (bb20_upper, bb20_middle, bb20_lower) = calculate_bollinger_bands ohlcv_df 20 2;
            (bb80_upper, bb80_middle, bb80_lower) = calculate_bollinger_bands ohlcv_df 80 2;
            current_candle = last ohlcv_df;
            current_open = open_price current_candle;
            current_high = high current_candle;
            current_close = close current_candle;
            current_bb20_lower = last bb20_lower;
            current_bb20_upper = last bb20_upper;
            current_bb80_upper = last bb80_upper;
            condition1 = flt (Fin current_open) current_bb20_lower;
            combined_upper = fadd current_bb20_upper current_bb80_upper;
            condition2 = fgt (Fin current_high) combined_upper;
            condition3 = (current_close > current_open)
        in condition1 \<and> condition2 \<and> condition3)"

text \<open>The stop plan of the breakout strategy, its entry price and its position
  size ratio: products of doubles.\<close>

record stop_info =
  stop_loss :: fval
  take_profit :: fval
  trailing_stop :: fval
  max_profit_target :: fval

definition bollinger_set_trailing_stop :: "arith \<Rightarrow> fval \<Rightarrow> stop_info" where
  "bollinger_set_trailing_stop ar entry_price =
     \<lparr>stop_loss = d_mul ar entry_price (d_lit ar 0.97),
      take_profit = d_mul ar entry_price (d_lit ar 3.00),
      trailing_stop = d_mul ar entry_price (d_lit ar 0.985),
      max_profit_target = d_mul ar entry_price (d_lit ar 3.00)\<rparr>"

definition bollinger_get_entry_price :: "arith \<Rightarrow> candle list \<Rightarrow> fval" where
  "bollinger_get_entry_price ar ohlcv_df =
     d_mul ar (Fin (close (last ohlcv_df))) (d_lit ar 0.995)"

definition bollinger_get_position_size_ratio :: "arith \<Rightarrow> fval" where
  "bollinger_get_position_size_ratio ar = d_lit ar 0.3"

text \<open>\<open>BaseStrategy.calculate_pnl\<close>: here \<open>position_size\<close> is a quantity of units.
  Any direction other than \<open>'long'\<close> takes the short branch. No code of the
  repository calls it.\<close>

definition calculate_pnl :: "arith \<Rightarrow> fval \<Rightarrow> fval \<Rightarrow> fval \<Rightarrow> string \<Rightarrow> fval" where
  "calculate_pnl ar entry_price current_price position_size direction =
     (if direction = ''long''
      then d_mul ar (d_sub ar current_price entry_price) position_size
      else d_mul ar (d_sub ar entry_price current_price) position_size)"

text \<open>\<open>StrategyFactory.get_strategy\<close> raises \<open>ValueError\<close> for an id that is not a key
  of the registry.\<close>

definition strategy_ids :: "string list" where
  "strategy_ids = [''momentum_v1'', ''mean_reversion_v1'', ''bollinger_breakout_v1'']"

definition get_strategy :: "string \<Rightarrow> py_error + string" where
  "get_strategy sid = (if sid \<notin> set strategy_ids then Inl ValueError else Inr sid)"

text \<open>The mean and the sample standard deviation of the last \<open>w\<close> closes: the values
  the bands are built from at the last candle.\<close>

definition window_mean :: "nat \<Rightarrow> candle list \<Rightarrow> real" where
  "window_mean w cs = sum_list (drop (length cs - w) (map close cs)) / real w"

definition window_std :: "nat \<Rightarrow> candle list \<Rightarrow> real" where
  "window_std w cs = sample_std (drop (length cs - w) (map close cs))"

section \<open>The breakout backtest (api/backtest.py)\<close>

text \<open>\<open>run_bollinger_breakout_backtest\<close> receives the strategy object and calls four of
  its methods; the embedding passes them as a record, so the loop is the same for any
  strategy object. Every number of the loop is a double: the close of a candle is a
  finite one, the results of the operations are whatever the arithmetic gives.\<close>

record strategy =
  check_entry_signal :: "candle list \<Rightarrow> bool"
  get_entry_price :: "candle list \<Rightarrow> fval"
  get_position_size_ratio :: fval
  set_trailing_stop :: "fval \<Rightarrow> stop_info"

definition bollinger_strategy :: "arith \<Rightarrow> strategy" where
  "bollinger_strategy ar =
     \<lparr>check_entry_signal = bollinger_check_entry_signal,
      get_entry_price = bollinger_get_entry_price ar,
      get_position_size_ratio = bollinger_get_position_size_ratio ar,
      set_trailing_stop = bollinger_set_trailing_stop ar\<rparr>"

text \<open>The four close reasons the loop writes into a trade, in the order of the
  source: the stop loss, the maximal take profit (200 percent), the trailing stop,
  and the end of the backtest.\<close>

datatype close_reason = Stop_loss | Max_take_profit | Trailing_stop | Backtest_end

text \<open>The \<open>position\<close> dictionary and a \<open>trade\<close> dictionary. The keys a trade gets only
  when it is closed are optional fields. The constant display string
  \<open>strategy_signal\<close> of a trade is left out.\<close>

record position =
  p_entry_date :: int
  p_entry_price :: fval
  p_size :: fval
  p_direction :: string
  p_highest_price :: fval

record trade =
  t_date :: int
  t_symbol :: string
  t_action :: string
  t_direction :: string
  t_price :: fval
  t_size :: fval
  t_pnl :: fval
  t_stop_loss :: fval
  t_max_profit_target :: fval
  t_close_date :: "int option"
  t_close_price :: "fval option"
  t_close_reason :: "close_reason option"
  t_highest_price_reached :: "fval option"
  t_max_profit_percentage :: "fval option"

record bt_state =
  current_capital :: fval
  cur_position :: "position option"
  trades :: "trade list"
  equity_curve :: "(int \<times> fval) list"

definition bt_init :: "real \<Rightarrow> bt_state" where
  "bt_init initial_capital =
     \<lparr>current_capital = Fin initial_capital, cur_position = None, trades = [],
      equity_curve = []\<rparr>"

text \<open>An assignment through \<open>trades[-1]\<close> or \<open>equity_curve[-1]\<close>. On an empty list
  Python raises \<open>IndexError\<close>; the loop only assigns while a position is held, when
  the ledger is not empty (lemma \<open>bt_loop_inv\<close> below).\<close>

definition update_last :: "('a \<Rightarrow> 'a) \<Rightarrow> 'a list \<Rightarrow> 'a list" where
  "update_last f xs = (if xs = [] then [] else butlast xs @ [f (last xs)])"

definition close_trade ::
    "arith \<Rightarrow> fval \<Rightarrow> int \<Rightarrow> fval \<Rightarrow> close_reason \<Rightarrow> fval \<Rightarrow> fval \<Rightarrow> trade \<Rightarrow> trade" where
  "close_trade ar pnl current_date current_price reason highest entry_price t =
     t\<lparr>t_pnl := pnl,
       t_close_date := Some current_date,
       t_close_price := Some current_price,
       t_close_reason := Some reason,
       t_highest_price_reached := Some highest,
       t_max_profit_percentage :=
         Some (d_mul ar (d_div ar (d_sub ar highest entry_price) entry_price) (Fin 100))\<rparr>"

text \<open>The branch \<open>if position is None and strategy.check_entry_signal(current_data)\<close>.\<close>

definition open_position ::
    "arith \<Rightarrow> strategy \<Rightarrow> candle list \<Rightarrow> int \<Rightarrow> bt_state \<Rightarrow> bt_state" where
  "open_position ar strat current_data current_date s =
     (let entry_price = get_entry_price strat current_data;
          position_size_ratio = get_position_size_ratio strat;
          position_size = d_mul ar (current_capital s) position_size_ratio;
          pos = \<lparr>p_entry_date = current_date, p_entry_price = entry_price,
                 p_size = position_size, p_direction = ''LONG'',
                 p_highest_price = entry_price\<rparr>;
          trade = \<lparr>t_date = current_date, t_symbol = ''BTC/USDT'', t_action = ''BUY'',
                   t_direction = ''LONG'', t_price = entry_price, t_size = position_size,
                   t_pnl = Fin 0, t_stop_loss = d_mul ar entry_price (d_lit ar 0.97),
                   t_max_profit_target = d_mul ar entry_price (d_lit ar 3.00),
                   t_close_date = None, t_close_price = None, t_close_reason = None,
                   t_highest_price_reached = None, t_max_profit_percentage = None\<rparr>
      in s\<lparr>cur_position := Some pos, trades := trades s @ [trade]\<rparr>)"

text \<open>The \<open>if / elif / elif\<close> chain that sets \<open>should_close\<close> and \<open>close_reason\<close>;
  \<open>None\<close> is \<open>should_close = False\<close>. The third test is
  \<open>current_price <= trailing_stop and position['highest_price'] > entry_price * 1.02\<close>.\<close>

definition close_decision ::
    "arith \<Rightarrow> fval \<Rightarrow> fval \<Rightarrow> fval \<Rightarrow> fval \<Rightarrow> fval \<Rightarrow> fval \<Rightarrow> close_reason option" where
  "close_decision ar current_price stop_loss_v max_profit_target_v trailing_stop_v
       highest entry_price =
     (if fle current_price stop_loss_v then Some Stop_loss
      else if fge current_price max_profit_target_v then Some Max_take_profit
      else if fle current_price trailing_stop_v
              \<and> fgt highest (d_mul ar entry_price (d_lit ar 1.02))
        then Some Trailing_stop
      else None)"

text \<open>The branch \<open>elif position is not None\<close>. The position always has the key
  \<open>highest_price\<close> (it is set on entry), so the update is the \<open>max\<close>.\<close>

definition manage_position ::
    "arith \<Rightarrow> strategy \<Rightarrow> candle \<Rightarrow> position \<Rightarrow> bt_state \<Rightarrow> bt_state" where
  "manage_position ar strat current_candle pos s =
     (let current_date = ts current_candle;
          current_price = Fin (close current_candle);
          entry_price = p_entry_price pos;
          position_size = p_size pos;
          pnl = d_div ar (d_mul ar (d_sub ar current_price entry_price) position_size)
                  entry_price;
          stop_i = set_trailing_stop strat entry_price;
          highest = py_max (p_highest_price pos) current_price;
          trailing = d_mul ar highest (d_lit ar 0.985)
      in case close_decision ar current_price (stop_loss stop_i) (max_profit_target stop_i)
                trailing highest entry_price of
           None \<Rightarrow> s\<lparr>cur_position := Some (pos\<lparr>p_highest_price := highest\<rparr>)\<rparr>
         | Some reason \<Rightarrow>
             s\<lparr>trades := update_last
                   (close_trade ar pnl current_date current_price reason highest entry_price)
                   (trades s),
               current_capital := d_add ar (current_capital s) pnl,
               cur_position := None\<rparr>)"

text \<open>One iteration of \<open>for i in range(80, len(ohlcv_data))\<close>: the entry branch, else
  the exit branch, then one point of the equity curve. \<open>ohlcv_data.iloc[:i+1]\<close> is
  \<open>take (i + 1)\<close> and its last row is row \<open>i\<close>.\<close>

definition bt_step :: "arith \<Rightarrow> strategy \<Rightarrow> candle list \<Rightarrow> nat \<Rightarrow> bt_state \<Rightarrow> bt_state" where
  "bt_step ar strat ohlcv_data i s =
     (let current_data = take (i + 1) ohlcv_data;
          current_candle = last current_data;
          current_date = ts current_candle;
          s' = (if cur_position s = None \<and> check_entry_signal strat current_data
                then open_position ar strat current_data current_date s
                else case cur_position s of
                       None \<Rightarrow> s
                     | Some pos \<Rightarrow> manage_position ar strat current_candle pos s)
      in s'\<lparr>equity_curve := equity_curve s' @ [(current_date, current_capital s')]\<rparr>)"

text \<open>The state after the iterations \<open>80, ..., n - 1\<close> of the loop.\<close>

definition bt_loop :: "arith \<Rightarrow> strategy \<Rightarrow> candle list \<Rightarrow> nat \<Rightarrow> bt_state \<Rightarrow> bt_state" where
  "bt_loop ar strat ohlcv_data n s =
     foldl (\<lambda>s i. bt_step ar strat ohlcv_data i s) s [80..<n]"

text \<open>After the loop: a position still held is closed at the close of the last
  candle. The source leaves the variable \<open>position\<close> as it is (it is not read
  again).\<close>

definition close_at_end :: "arith \<Rightarrow> candle list \<Rightarrow> bt_state \<Rightarrow> bt_state" where
  "close_at_end ar ohlcv_data s =
     (case cur_position s of
        None \<Rightarrow> s
      | Some pos \<Rightarrow>
          let last_candle = last ohlcv_data;
              current_price = Fin (close last_candle);
              entry_price = p_entry_price pos;
              position_size = p_size pos;
              pnl = d_div ar (d_mul ar (d_sub ar current_price entry_price) position_size)
                      entry_price
          in s\<lparr>trades := update_last
                   (close_trade ar pnl (ts last_candle) current_price Backtest_end
                      (p_highest_price pos) entry_price)
                   (trades s),
               current_capital := d_add ar (current_capital s) pnl,
               equity_curve := update_last (\<lambda>(d, e). (d, d_add ar (current_capital s) pnl))
                   (equity_curve s)\<rparr>)"

text \<open>The trading part of the function: the loop and the forced close.\<close>

definition run_trading :: "arith \<Rightarrow> strategy \<Rightarrow> candle list \<Rightarrow> real \<Rightarrow> bt_state" where
  "run_trading ar strat ohlcv_data initial_capital =
     close_at_end ar ohlcv_data
       (bt_loop ar strat ohlcv_data (length ohlcv_data) (bt_init initial_capital))"

text \<open>The profit factor of the returned statistics:
  \<^verbatim>\<open>
  round(sum(pnl of trades with pnl > 0) / abs(sum(pnl of trades with pnl < 0)), 2)
      if sum(pnl of trades with pnl < 0) != 0 else 0
  \<close>
  \<open>sum\<close> adds from the left, starting from the integer 0.\<close>

definition py_sum :: "arith \<Rightarrow> fval list \<Rightarrow> fval" where
  "py_sum ar xs = foldl (d_add ar) (Fin 0) xs"

definition sum_winning :: "arith \<Rightarrow> trade list \<Rightarrow> fval" where
  "sum_winning ar trs = py_sum ar (map t_pnl (filter (\<lambda>t. fgt (t_pnl t) (Fin 0)) trs))"

definition sum_losing :: "arith \<Rightarrow> trade list \<Rightarrow> fval" where
  "sum_losing ar trs = py_sum ar (map t_pnl (filter (\<lambda>t. flt (t_pnl t) (Fin 0)) trs))"

definition profit_factor :: "arith \<Rightarrow> trade list \<Rightarrow> fval" where
  "profit_factor ar trs =
     (if fne (sum_losing ar trs) (Fin 0)
      then d_round2 ar (d_div ar (sum_winning ar trs) (fabs (sum_losing ar trs)))
      else Fin 0)"

text \<open>The profit factor a run reports, or the exception that ends the run before the
  statistics are returned. Two statements between the loop and the \<open>return\<close> can
  raise. The total return divides by \<open>request.initial_capital\<close>: with no trade both
  operands are Python floats and a zero capital raises \<open>ZeroDivisionError\<close> (with a
  trade in the ledger the dividend is a numpy double and the division gives an
  infinity or NaN). Then \<open>max(equities)\<close> raises \<open>ValueError\<close> on an empty equity
  curve, that is when the series has at most 80 candles. The other statistics
  (returns, drawdown, Sharpe ratio, averages) are guarded or cannot raise; they are
  not embedded.\<close>

definition run_profit_factor ::
    "arith \<Rightarrow> strategy \<Rightarrow> candle list \<Rightarrow> real \<Rightarrow> py_error + fval" where
  "run_profit_factor ar strat ohlcv_data initial_capital =
     (let s = run_trading ar strat ohlcv_data initial_capital
      in if trades s = [] \<and> initial_capital = 0 then Inl ZeroDivisionError
         else if equity_curve s = [] then Inl ValueError
         else Inr (profit_factor ar (trades s)))"

subsection \<open>Creating a backtest job\<close>

text \<open>\<open>BacktestRequest\<close> (a pydantic model: five typed fields, no validator; a
  \<open>datetime\<close> is a point in time, here an integer) and \<open>create_backtest\<close>. The state
  the handler writes is the job table of the database, the dictionary
  \<open>backtest_jobs\<close> and the queue of background tasks. The job id is a fresh uuid,
  here an argument. A failure of the database itself is not modelled.\<close>

record backtest_request =
  strategy_id :: string
  start_date :: int
  end_date :: int
  initial_capital :: real
  timeframe :: string

datatype http_error = Invalid_strategy_400 | Bad_dates_400

record app_state =
  db_jobs :: "(backtest_request \<times> string) list"
  backtest_jobs :: "string \<rightharpoonup> (backtest_request \<times> string)"
  background_tasks :: "(string \<times> backtest_request) list"

definition create_backtest ::
    "backtest_request \<Rightarrow> string \<Rightarrow> app_state \<Rightarrow> (http_error + string) \<times> app_state" where
  "create_backtest request job_id st =
     (case get_strategy (strategy_id request) of
        Inl e \<Rightarrow> (Inl Invalid_strategy_400, st)
      | Inr strat \<Rightarrow>
          if start_date request \<ge> end_date request then (Inl Bad_dates_400, st)
          else (Inr job_id,
                st\<lparr>db_jobs := db_jobs st @ [(request, ''PENDING'')],
                   backtest_jobs := (backtest_jobs st)(job_id \<mapsto> (request, ''PENDING'')),
                   background_tasks := background_tasks st @ [(job_id, request)]\<rparr>))"

section \<open>Universe scan (market\_analysis.py)\<close>

text \<open>A ticker as \<open>get_all_tickers\<close> builds it; every key is present, so the defaults
  of \<open>x.get('change_pct', 0)\<close> are never taken.\<close>

record ticker =
  symbol :: string
  change_pct :: real
  quote_volume :: real
  last_price :: real

definition endswith :: "string \<Rightarrow> string \<Rightarrow> bool" where
  "endswith s suffix =
     (length suffix \<le> length s \<and> drop (length s - length suffix) s = suffix)"

text \<open>\<open>sorted(xs, key=f)\<close> is a stable sort, and \<open>reverse=True\<close> keeps the original
  order of elements with equal keys: a stable sort on the negated key. The keys of
  these two sorts are the finite doubles of the snapshot.\<close>

definition sorted_asc :: "('a \<Rightarrow> real) \<Rightarrow> 'a list \<Rightarrow> 'a list" where
  "sorted_asc f xs = sort_key f xs"

definition sorted_desc :: "('a \<Rightarrow> real) \<Rightarrow> 'a list \<Rightarrow> 'a list" where
  "sorted_desc f xs = sort_key (\<lambda>x. - f x) xs"

text \<open>The same descending stable sort on computed keys, by insertion from the
  right: an element goes behind the elements with a larger key and before those
  with an equal or smaller one. (On keys that are not NaN this is the order Python
  returns.)\<close>

fun insort_desc :: "('a \<Rightarrow> fval) \<Rightarrow> 'a \<Rightarrow> 'a list \<Rightarrow> 'a list" where
  "insort_desc key x [] = [x]"
| "insort_desc key x (y # ys) =
     (if flt (key x) (key y) then y # insort_desc key x ys else x # y # ys)"

definition sorted_desc_by :: "('a \<Rightarrow> fval) \<Rightarrow> 'a list \<Rightarrow> 'a list" where
  "sorted_desc_by key xs = foldr (insort_desc key) xs []"

text \<open>The \<open>scores\<close> dictionary of \<open>_calculate_weighted_score\<close>, in insertion order
  (the order \<open>scores.values()\<close> lists it in), and one iteration of either loop:
  \<open>scores[symbol]['score'] += (10 - i) * weight\<close>, in doubles.\<close>

record score_entry =
  se_symbol :: string
  se_data :: ticker
  se_score :: fval

definition add_score ::
    "arith \<Rightarrow> fval \<Rightarrow> score_entry list \<Rightarrow> nat \<times> ticker \<Rightarrow> score_entry list" where
  "add_score ar weight scores p =
     (let i = fst p; item = snd p; name = symbol item;
          scores' = (if name \<notin> set (map se_symbol scores)
                     then scores @ [\<lparr>se_symbol = name, se_data = item, se_score = Fin 0\<rparr>]
                     else scores)
      in map (\<lambda>e. if se_symbol e = name
                   then e\<lparr>se_score :=
                          d_add ar (se_score e) (d_mul ar (Fin (10 - real i)) weight)\<rparr>
                   else e)
             scores')"

definition calculate_weighted_score ::
    "arith \<Rightarrow> ticker list \<Rightarrow> ticker list \<Rightarrow> fval \<Rightarrow> fval \<Rightarrow> ticker list" where
  "calculate_weighted_score ar change_list volume_list change_weight volume_weight =
     (let scores = foldl (add_score ar change_weight) [] (enumerate 0 change_list);
          scores = foldl (add_score ar volume_weight) scores (enumerate 0 volume_list);
          sorted_items = sorted_desc_by se_score scores
      in map se_data sorted_items)"

text \<open>\<open>scan_universe\<close>. Slices clip: \<open>xs[:10]\<close> is \<open>take 10\<close>, \<open>xs[-10:]\<close> is the last ten
  elements or the whole list when it is shorter. A result entry is the pair of the
  symbol and the direction.\<close>

definition scan_universe :: "arith \<Rightarrow> string \<Rightarrow> ticker list \<Rightarrow> (string \<times> string) list" where
  "scan_universe ar market_regime all_tickers_data =
     (let usdt_pairs = filter (\<lambda>t. endswith (symbol t) ''/USDT'') all_tickers_data
      in if market_regime = ''UPTREND'' then
           let sorted_by_change = sorted_desc change_pct usdt_pairs;
               top_change = take 10 sorted_by_change;
               sorted_by_volume = sorted_desc quote_volume usdt_pairs;
               top_volume = take 10 sorted_by_volume;
               selected = calculate_weighted_score ar top_change top_volume
                            (d_lit ar 0.6) (d_lit ar 0.4)
           in map (\<lambda>item. (symbol item, ''long'')) (take 5 selected)
         else if market_regime = ''DOWNTREND'' then
           let sorted_by_change = sorted_asc change_pct usdt_pairs;
               top_change = take 10 sorted_by_change;
               sorted_by_volume = sorted_desc quote_volume usdt_pairs;
               top_volume = take 10 sorted_by_volume;
               selected = calculate_weighted_score ar top_change top_volume
                            (d_lit ar 0.6) (d_lit ar 0.4)
           in map (\<lambda>item. (symbol item, ''short'')) (take 5 selected)
         else
           let sorted_by_change = sorted_desc change_pct usdt_pairs;
               top_gainers = take 10 sorted_by_change;
               top_losers = drop (length sorted_by_change - 10) sorted_by_change;
               sorted_by_volume = sorted_desc quote_volume usdt_pairs;
               top_volume = take 10 sorted_by_volume;
               selected_long = take 5 (calculate_weighted_score ar top_gainers top_volume
                                 (d_lit ar 0.6) (d_lit ar 0.4));
               selected_short = take 5 (calculate_weighted_score ar top_losers top_volume
                                  (d_lit ar 0.6) (d_lit ar 0.4))
           in map (\<lambda>item. (symbol item, ''long'')) selected_long
              @ map (\<lambda>item. (symbol item, ''short'')) selected_short)"

subsection \<open>What holds of the ledger during the loop\<close>

text \<open>A trade is open until it gets its close fields. \<open>exit_closed d n t\<close>: the trade
  was entered at a candle \<open>a\<close> and closed by one of the three exit conditions at a
  later candle \<open>b\<close>, both among the candles \<open>80, ..., n - 1\<close>. \<open>held_trade\<close>: the trade is
  open and belongs to the position held. \<open>loop_inv d n s\<close>: the state after the
  candles below \<open>n\<close> has one equity point per candle, every trade but the last is
  closed, and the last is open exactly when a position is held.\<close>

definition trade_open :: "trade \<Rightarrow> bool" where
  "trade_open t = (t_close_date t = None)"

definition exit_closed :: "candle list \<Rightarrow> nat \<Rightarrow> trade \<Rightarrow> bool" where
  "exit_closed d n t =
     (\<exists>b\<in>{80..<n}. \<exists>a\<in>{80..<b}.
        t_date t = ts (d ! a) \<and> t_close_date t = Some (ts (d ! b))
        \<and> t_close_price t = Some (Fin (close (d ! b)))
        \<and> t_close_reason t \<in> {Some Stop_loss, Some Max_take_profit, Some Trailing_stop})"

definition held_trade :: "candle list \<Rightarrow> nat \<Rightarrow> position \<Rightarrow> trade \<Rightarrow> bool" where
  "held_trade d n pos t =
     (trade_open t \<and> p_direction pos = ''LONG''
      \<and> (\<exists>a\<in>{80..<n}. t_date t = ts (d ! a) \<and> p_entry_date pos = ts (d ! a)))"

definition loop_inv :: "candle list \<Rightarrow> nat \<Rightarrow> bt_state \<Rightarrow> bool" where
  "loop_inv d n s =
     (length (equity_curve s) = n - 80 \<and>
      (case cur_position s of
         None \<Rightarrow> list_all (exit_closed d n) (trades s)
       | Some pos \<Rightarrow> trades s \<noteq> [] \<and> list_all (exit_closed d n) (butlast (trades s))
                    \<and> held_trade d n pos (last (trades s))))"

section \<open>Concrete inputs\<close>

text \<open>Candles for the worked examples: \<open>mk_candle t o h l c\<close> has timestamp \<open>t\<close>
  and the four prices; \<open>flat_candle p\<close> has all four prices equal to \<open>p\<close>.\<close>

definition mk_candle :: "int \<Rightarrow> real \<Rightarrow> real \<Rightarrow> real \<Rightarrow> real \<Rightarrow> candle" where
  "mk_candle t o_p h_p l_p c_p =
     \<lparr>ts = t, open_price = o_p, high = h_p, low = l_p, close = c_p, volume = 1\<rparr>"

definition flat_candle :: "real \<Rightarrow> candle" where
  "flat_candle p = mk_candle 0 p p p p"

text \<open>An application state with no jobs, a request with the given strategy id,
  dates and capital, and a closed trade with the given pnl.\<close>

definition empty_app_state :: app_state where
  "empty_app_state = \<lparr>db_jobs = [], backtest_jobs = Map.empty, background_tasks = []\<rparr>"

definition request_with :: "string \<Rightarrow> int \<Rightarrow> int \<Rightarrow> real \<Rightarrow> backtest_request" where
  "request_with sid sd ed cap =
     \<lparr>strategy_id = sid, start_date = sd, end_date = ed, initial_capital = cap,
      timeframe = ''1h''\<rparr>"

definition trade_with_pnl :: "real \<Rightarrow> trade" where
  "trade_with_pnl x =
     \<lparr>t_date = 0, t_symbol = ''BTC/USDT'', t_action = ''BUY'', t_direction = ''LONG'',
      t_price = Fin 100, t_size = Fin 100, t_pnl = Fin x, t_stop_loss = Fin 97,
      t_max_profit_target = Fin 300,
      t_close_date = Some 1, t_close_price = Some (Fin (100 + x)),
      t_close_reason = Some Backtest_end, t_highest_price_reached = Some (Fin 100),
      t_max_profit_percentage = Some (Fin 0)\<rparr>"

text \<open>Three series for the breakout strategy. Eighty flat candles at 100 are
  followed by a candle that opens at 90 below the lower band (100), reaches 250 above
  the sum of the two upper bands (200) and closes at 100 above its open: the entry
  signal. \<open>series_entry_last\<close> ends there. \<open>series_stopped\<close> has one more candle,
  closing at 90 below the stop loss. \<open>series_two_trades\<close> goes on with a second
  breakout candle and a candle closing at 310 above the profit target.
  \<open>entered_state\<close> is the state after the first entry with capital 1000 in exact
  arithmetic: entry price 99.5, size 300.\<close>

definition flat_prefix :: "candle list" where
  "flat_prefix = map (\<lambda>i. mk_candle (int i) 100 100 100 100) [0..<80]"

definition breakout_candle :: candle where
  "breakout_candle = mk_candle 80 90 250 90 100"

definition series_entry_last :: "candle list" where
  "series_entry_last = flat_prefix @ [breakout_candle]"

definition series_stopped :: "candle list" where
  "series_stopped = flat_prefix @ [breakout_candle, mk_candle 81 100 100 90 90]"

definition series_two_trades :: "candle list" where
  "series_two_trades =
     flat_prefix @ [breakout_candle, mk_candle 81 100 100 90 90,
                    mk_candle 82 90 250 90 100, mk_candle 83 100 310 100 310]"

definition entry_position :: position where
  "entry_position =
     \<lparr>p_entry_date = 80, p_entry_price = Fin (995 / 10), p_size = Fin 300,
      p_direction = ''LONG'', p_highest_price = Fin (995 / 10)\<rparr>"

definition entry_trade :: trade where
  "entry_trade =
     \<lparr>t_date = 80, t_symbol = ''BTC/USDT'', t_action = ''BUY'', t_direction = ''LONG'',
      t_price = Fin (995 / 10), t_size = Fin 300, t_pnl = Fin 0,
      t_stop_loss = Fin (995 / 10 * 0.97), t_max_profit_target = Fin (995 / 10 * 3),
      t_close_date = None, t_close_price = None, t_close_reason = None,
      t_highest_price_reached = None, t_max_profit_percentage = None\<rparr>"

definition entered_state :: bt_state where
  "entered_state =
     \<lparr>current_capital = Fin 1000, cur_position = Some entry_position,
      trades = [entry_trade], equity_curve = [(80, Fin 1000)]\<rparr>"

text \<open>The breakout strategy in exact arithmetic, and the state after the stop loss
  at candle 81: the loss is (90 - 99.5) * 300 / 99.5 = -5700/199.\<close>

definition exact_bollinger :: strategy where
  "exact_bollinger = bollinger_strategy exact_arith"

definition stopped_trade :: trade where
  "stopped_trade =
     close_trade exact_arith (Fin (- (5700 / 199))) 81 (Fin 90) Stop_loss (Fin (995 / 10))
       (Fin (995 / 10)) entry_trade"

definition stopped_state :: bt_state where
  "stopped_state =
     \<lparr>current_capital = Fin (1000 - 5700 / 199), cur_position = None,
      trades = [stopped_trade],
      equity_curve = [(80, Fin 1000), (81, Fin (1000 - 5700 / 199))]\<rparr>"

text \<open>The second trade of \<open>series_two_trades\<close>: entered at candle 82 at 99.5 with size
  0.3 * (1000 - 5700/199) = 57990/199, closed at candle 83 at 310 above the target
  298.5, with profit (310 - 99.5) * (57990/199) / 99.5 = 24413790/39601.\<close>

definition second_position :: position where
  "second_position =
     \<lparr>p_entry_date = 82, p_entry_price = Fin (995 / 10), p_size = Fin (57990 / 199),
      p_direction = ''LONG'', p_highest_price = Fin (995 / 10)\<rparr>"

definition second_entry_trade :: trade where
  "second_entry_trade =
     \<lparr>t_date = 82, t_symbol = ''BTC/USDT'', t_action = ''BUY'', t_direction = ''LONG'',
      t_price = Fin (995 / 10), t_size = Fin (57990 / 199), t_pnl = Fin 0,
      t_stop_loss = Fin (995 / 10 * 0.97), t_max_profit_target = Fin (995 / 10 * 3),
      t_close_date = None, t_close_price = None, t_close_reason = None,
      t_highest_price_reached = None, t_max_profit_percentage = None\<rparr>"

definition second_entered_state :: bt_state where
  "second_entered_state =
     \<lparr>current_capital = Fin (1000 - 5700 / 199), cur_position = Some second_position,
      trades = [stopped_trade, second_entry_trade],
      equity_curve = [(80, Fin 1000), (81, Fin (1000 - 5700 / 199)),
                      (82, Fin (1000 - 5700 / 199))]\<rparr>"

definition won_trade :: trade where
  "won_trade =
     close_trade exact_arith (Fin (24413790 / 39601)) 83 (Fin 310) Max_take_profit (Fin 310)
       (Fin (995 / 10)) second_entry_trade"

definition won_state :: bt_state where
  "won_state =
     \<lparr>current_capital = Fin (1000 - 5700 / 199 + 24413790 / 39601), cur_position = None,
      trades = [stopped_trade, won_trade],
      equity_curve = [(80, Fin 1000), (81, Fin (1000 - 5700 / 199)),
                      (82, Fin (1000 - 5700 / 199)),
                      (83, Fin (1000 - 5700 / 199 + 24413790 / 39601))]\<rparr>"

text \<open>The state of the worked scenario: a long position entered at 100 with size
  1000, whose highest price so far is 150.\<close>

definition scenario_position :: position where
  "scenario_position =
     \<lparr>p_entry_date = 80, p_entry_price = Fin 100, p_size = Fin 1000,
      p_direction = ''LONG'', p_highest_price = Fin 150\<rparr>"

definition scenario_trade :: trade where
  "scenario_trade =
     \<lparr>t_date = 80, t_symbol = ''BTC/USDT'', t_action = ''BUY'', t_direction = ''LONG'',
      t_price = Fin 100, t_size = Fin 1000, t_pnl = Fin 0, t_stop_loss = Fin 97,
      t_max_profit_target = Fin 300,
      t_close_date = None, t_close_price = None, t_close_reason = None,
      t_highest_price_reached = None, t_max_profit_percentage = None\<rparr>"

definition scenario_state :: bt_state where
  "scenario_state =
     \<lparr>current_capital = Fin 5000, cur_position = Some scenario_position,
      trades = [scenario_trade], equity_curve = []\<rparr>"

text \<open>A ticker snapshot of four instruments, three of them quoted in USDT.\<close>

definition mk_ticker :: "string \<Rightarrow> real \<Rightarrow> real \<Rightarrow> ticker" where
  "mk_ticker name chg vol =
     \<lparr>symbol = name, change_pct = chg, quote_volume = vol, last_price = 1\<rparr>"

definition sample_tickers :: "ticker list" where
  "sample_tickers =
     [mk_ticker ''BTC/USDT'' 5 100, mk_ticker ''ETH/USDT'' (- 2) 300,
      mk_ticker ''XRP/BTC'' 9 50, mk_ticker ''SOL/USDT'' 1 200]"

section \<open>Properties\<close>

lemma last_rolling_mean:
  assumes "0 < w" and "w \<le> length xs"
  shows "last (rolling_mean w xs) = Fin (sum_list (drop (length xs - w) xs) / real w)"
proof -
  from assms have ne: "xs \<noteq> []" by auto
  then have n: "[0..<length xs] = [0..<length xs - 1] @ [length xs - 1]"
    by (cases "length xs") auto
  have "last (rolling_mean w xs) =
      (if length xs - 1 + 1 < w then NaN
       else Fin (sum_list (take w (drop (length xs - 1 + 1 - w) xs)) / real w))"
    unfolding rolling_mean_def by (subst n) simp
  also from assms ne have "\<dots> = Fin (sum_list (take w (drop (length xs - w) xs)) / real w)"
    by (simp add: Suc_leI)
  also from assms have "take w (drop (length xs - w) xs) = drop (length xs - w) xs"
    by simp
  finally show ?thesis .
qed

subsection \<open>Comparisons of doubles, and exact arithmetic\<close>

lemma flt_irrefl: "\<not> flt a a"
  by (cases a) simp_all

lemma flt_asym: "flt a b \<Longrightarrow> \<not> flt b a"
  by (cases a; cases b) simp_all

lemma flt_trans: "flt a b \<Longrightarrow> flt b c \<Longrightarrow> flt a c"
  by (cases a; cases b; cases c) simp_all

lemma flt_NaN_right: "\<not> flt a NaN"
  by (cases a) simp_all

lemma near_refl: "near x x"
  by (simp add: near_def)

lemma py_round2_nearest:
  "\<exists>k::int. \<bar>of_int k - 100 * x\<bar> \<le> 1 / 2 \<and> py_round2 x = of_int k / 100"
proof -
  define f where "f = \<lfloor>x * 100\<rfloor>"
  define k where "k = (if x * 100 - of_int f < 1 / 2 then f
                 else if x * 100 - of_int f > 1 / 2 then f + 1
                 else if even f then f else f + 1)"
  have f: "of_int f \<le> x * 100" "x * 100 < of_int f + 1" unfolding f_def by linarith+
  have r: "py_round2 x = of_int k / 100"
    by (simp add: py_round2_def Let_def k_def f_def)
  have "\<bar>of_int k - 100 * x\<bar> \<le> 1 / 2"
    using f unfolding k_def by (auto simp: abs_le_iff)
  with r show ?thesis by blast
qed

lemma exact_arith_simps [simp]:
  "d_lit exact_arith = Fin" "d_add exact_arith = fadd" "d_sub exact_arith = fsub"
  "d_mul exact_arith = fmul" "d_div exact_arith = fdiv" "d_round2 exact_arith = fround2"
  by (simp_all add: exact_arith_def)

lemma fsub_Fin [simp]: "fsub (Fin a) (Fin b) = Fin (a - b)"
  by (simp add: fsub_def)

lemma ieee_like_exact_arith: "ieee_like exact_arith"
proof -
  have r2: "\<exists>k::int. \<bar>of_int k - 100 * x\<bar> \<le> 1 / 2 + 1 / 2 ^ 20
      \<and> rounds_to (fround2 (Fin x)) (of_int k / 100)" for x
  proof -
    from py_round2_nearest [of x] obtain k :: int
      where k: "\<bar>of_int k - 100 * x\<bar> \<le> 1 / 2" "py_round2 x = of_int k / 100" by blast
    from k(1) have a: "\<bar>of_int k - 100 * x\<bar> \<le> 1 / 2 + 1 / 2 ^ 20" by simp
    have b: "rounds_to (fround2 (Fin x)) (of_int k / 100)"
      by (simp add: rounds_to_def k(2) near_refl)
    from a b show ?thesis by blast
  qed
  have lit: "rounds_to (Fin x) x" for x
    by (simp add: rounds_to_def near_refl)
  show ?thesis
    unfolding ieee_like_def exact_arith_simps
  proof (intro conjI allI impI)
    fix x :: real
    show "\<exists>k::int. \<bar>of_int k - 100 * x\<bar> \<le> 1 / 2 + 1 / 2 ^ 20
        \<and> rounds_to (fround2 (Fin x)) (of_int k / 100)"
      by (rule r2)
  qed (simp_all add: lit fsub_def)
qed

subsection \<open>The regime classifier\<close>

text \<open>Claim C3. For a series of at least 120 candles the classifier returns UPTREND
  exactly when last close > SMA20 > SMA60 > SMA120, DOWNTREND exactly when
  last close < SMA20 < SMA60 < SMA120, both chains strict, and SIDEWAYS in every
  other case; the result is always one of the three labels. A tie between any two
  of the four values gives SIDEWAYS, and so does an average that is NaN. The
  averages are the values the rolling mean returns, whatever its rounding.\<close>

theorem regime_classifier_strict_chains:
  assumes "120 \<le> length cs"
  shows
   "let c = Fin (close (last cs));
        s20 = sma 20 (map close cs);
        s60 = sma 60 (map close cs);
        s120 = sma 120 (map close cs);
        r = analyze_market_regime sma cs
    in (r = Inr UPTREND \<longleftrightarrow> fgt c s20 \<and> fgt s20 s60 \<and> fgt s60 s120)
     \<and> (r = Inr DOWNTREND \<longleftrightarrow> flt c s20 \<and> flt s20 s60 \<and> flt s60 s120)
     \<and> (r = Inr SIDEWAYS \<longleftrightarrow>
          \<not> (fgt c s20 \<and> fgt s20 s60 \<and> fgt s60 s120)
          \<and> \<not> (flt c s20 \<and> flt s20 s60 \<and> flt s60 s120))
     \<and> (r = Inr UPTREND \<or> r = Inr DOWNTREND \<or> r = Inr SIDEWAYS)
     \<and> (c = s20 \<or> c = s60 \<or> c = s120 \<or> s20 = s60 \<or> s20 = s120 \<or> s60 = s120
          \<longrightarrow> r = Inr SIDEWAYS)
     \<and> (s20 = NaN \<or> s60 = NaN \<or> s120 = NaN \<longrightarrow> r = Inr SIDEWAYS)"
proof -
  let ?c = "Fin (close (last cs))"
  let ?s20 = "sma 20 (map close cs)"
  let ?s60 = "sma 60 (map close cs)"
  let ?s120 = "sma 120 (map close cs)"
  let ?up = "fgt ?c ?s20 \<and> fgt ?s20 ?s60 \<and> fgt ?s60 ?s120"
  let ?down = "flt ?c ?s20 \<and> flt ?s20 ?s60 \<and> flt ?s60 ?s120"
  from assms have ne: "cs \<noteq> []" by auto
  have lc: "last (map close cs) = close (last cs)"
    using ne by (simp add: last_map)
  have r: "analyze_market_regime sma cs
      = (if ?up then Inr UPTREND else if ?down then Inr DOWNTREND else Inr SIDEWAYS)"
    using assms by (simp add: analyze_market_regime_def Let_def lc)
  have excl: "\<not> (?up \<and> ?down)"
    using flt_asym [of ?c ?s20] by (auto simp: fgt_def)
  have tie: "\<not> ?up \<and> \<not> ?down"
    if "?c = ?s20 \<or> ?c = ?s60 \<or> ?c = ?s120 \<or> ?s20 = ?s60 \<or> ?s20 = ?s120 \<or> ?s60 = ?s120"
  proof -
    have "\<not> ?up"
    proof
      assume u: ?up
      then have a: "flt ?s20 ?c" "flt ?s60 ?s20" "flt ?s120 ?s60" by (simp_all add: fgt_def)
      have b: "flt ?s60 ?c" using flt_trans [OF a(2) a(1)] .
      have c: "flt ?s120 ?s20" using flt_trans [OF a(3) a(2)] .
      have d: "flt ?s120 ?c" using flt_trans [OF a(3) b] .
      from that a b c d show False by (metis flt_irrefl)
    qed
    moreover have "\<not> ?down"
    proof
      assume dn: ?down
      then have a: "flt ?c ?s20" "flt ?s20 ?s60" "flt ?s60 ?s120" by simp_all
      have b: "flt ?c ?s60" using flt_trans [OF a(1) a(2)] .
      have c: "flt ?s20 ?s120" using flt_trans [OF a(2) a(3)] .
      have d: "flt ?c ?s120" using flt_trans [OF b a(3)] .
      from that a b c d show False by (metis flt_irrefl)
    qed
    ultimately show ?thesis by simp
  qed
  have nan: "\<not> ?up \<and> \<not> ?down" if "?s20 = NaN \<or> ?s60 = NaN \<or> ?s120 = NaN"
    using that by (auto simp: fgt_def flt_NaN_right)
  have up: "analyze_market_regime sma cs = Inr UPTREND \<longleftrightarrow> ?up"
    unfolding r by simp
  have down: "analyze_market_regime sma cs = Inr DOWNTREND \<longleftrightarrow> ?down"
    unfolding r using excl by auto
  have side: "analyze_market_regime sma cs = Inr SIDEWAYS \<longleftrightarrow> \<not> ?up \<and> \<not> ?down"
    unfolding r by simp
  have one: "analyze_market_regime sma cs = Inr UPTREND
      \<or> analyze_market_regime sma cs = Inr DOWNTREND
      \<or> analyze_market_regime sma cs = Inr SIDEWAYS"
    unfolding r by simp
  show ?thesis
    unfolding Let_def using up down side one tie nan by blast
qed

text \<open>With the averages of exact arithmetic: 119 candles at 100 followed by one at
  200 are an uptrend (200 > 105 > 101.67 > 100.83), the mirrored series is a
  downtrend, and a flat series, where all four values tie, is sideways.\<close>

lemma exact_sma_tail:
  "0 < w \<Longrightarrow> w \<le> length xs \<Longrightarrow>
   exact_sma w xs = Fin (sum_list (drop (length xs - w) xs) / real w)"
  by (simp add: exact_sma_def last_rolling_mean)

theorem regime_classifier_strict_chains_witness:
  "analyze_market_regime exact_sma (replicate 119 (flat_candle 100) @ [flat_candle 200])
     = Inr UPTREND
   \<and> analyze_market_regime exact_sma (replicate 119 (flat_candle 100) @ [flat_candle 50])
     = Inr DOWNTREND
   \<and> analyze_market_regime exact_sma (replicate 120 (flat_candle 100)) = Inr SIDEWAYS"
proof -
  have a: "analyze_market_regime exact_sma (replicate 119 (flat_candle 100) @ [flat_candle 200])
      = Inr UPTREND"
    using regime_classifier_strict_chains
      [of "replicate 119 (flat_candle 100) @ [flat_candle 200]" exact_sma]
    by (simp add: Let_def exact_sma_tail flat_candle_def mk_candle_def sum_list_replicate
        fgt_def)
  have b: "analyze_market_regime exact_sma (replicate 119 (flat_candle 100) @ [flat_candle 50])
      = Inr DOWNTREND"
    using regime_classifier_strict_chains
      [of "replicate 119 (flat_candle 100) @ [flat_candle 50]" exact_sma]
    by (simp add: Let_def exact_sma_tail flat_candle_def mk_candle_def sum_list_replicate
        fgt_def)
  have c: "analyze_market_regime exact_sma (replicate 120 (flat_candle 100)) = Inr SIDEWAYS"
    using regime_classifier_strict_chains [of "replicate 120 (flat_candle 100)" exact_sma]
    by (simp add: Let_def exact_sma_tail flat_candle_def mk_candle_def sum_list_replicate
        fgt_def)
  from a b c show ?thesis by simp
qed

subsection \<open>Series shorter than the lookback\<close>

text \<open>Claim C4 says that every component fails with an error on a series shorter
  than its lookback. The breakout entry signal does not: on 79 candles it returns
  \<open>False\<close>, the value of its guard \<open>if len(ohlcv_df) < 80: return False\<close>.\<close>

theorem short_series_handling_counterexample:
  "length (replicate 79 (flat_candle 100)) < 80
   \<and> bollinger_check_entry_signal (replicate 79 (flat_candle 100)) = False"
  by (simp add: bollinger_check_entry_signal_def)

text \<open>Claim C4, amended. On fewer than 120 candles the regime classifier fails with
  \<open>ValueError\<close>; on fewer than 80 candles the breakout entry signal returns \<open>False\<close>
  (no signal) and does not fail.\<close>

theorem short_series_handling:
  "(length cs < 120 \<longrightarrow> analyze_market_regime sma cs = Inl ValueError)
   \<and> (length cs < 80 \<longrightarrow> bollinger_check_entry_signal cs = False)"
  by (simp add: analyze_market_regime_def bollinger_check_entry_signal_def)

theorem short_series_handling_witness:
  "analyze_market_regime exact_sma (replicate 119 (flat_candle 100)) = Inl ValueError
   \<and> bollinger_check_entry_signal (replicate 79 (flat_candle 100)) = False"
  using short_series_handling [of "replicate 119 (flat_candle 100)" exact_sma]
    short_series_handling [of "replicate 79 (flat_candle 100)" exact_sma]
  by simp

subsection \<open>Validation of a backtest request\<close>

text \<open>Claim C5 says that a request with a non-positive initial capital is rejected.
  \<open>create_backtest\<close> checks the strategy id and the order of the dates only: a
  request with capital -5 is accepted and its job is queued.\<close>

theorem request_validation_counterexample:
  "fst (create_backtest (request_with ''momentum_v1'' 0 1 (-5)) ''job-1'' empty_app_state)
     = Inr ''job-1''
   \<and> background_tasks
       (snd (create_backtest (request_with ''momentum_v1'' 0 1 (-5)) ''job-1'' empty_app_state))
     = [(''job-1'', request_with ''momentum_v1'' 0 1 (-5))]
   \<and> initial_capital (request_with ''momentum_v1'' 0 1 (-5)) \<le> 0"
  by (simp add: create_backtest_def request_with_def get_strategy_def strategy_ids_def
      empty_app_state_def)

text \<open>Claim C5, amended. A request is rejected with a 400 error, and the state is
  left as it was, whenever the strategy id is unknown or the start date is not
  before the end date; every other request is accepted. The initial capital is never
  examined: changing it does not change whether the request is rejected.\<close>

theorem request_validation:
  "(strategy_id r \<notin> set strategy_ids \<or> start_date r \<ge> end_date r \<longrightarrow>
      (\<exists>e. fst (create_backtest r j st) = Inl e) \<and> snd (create_backtest r j st) = st)
   \<and> (strategy_id r \<in> set strategy_ids \<and> start_date r < end_date r \<longrightarrow>
      fst (create_backtest r j st) = Inr j)
   \<and> isl (fst (create_backtest (r\<lparr>initial_capital := c\<rparr>) j st))
       = isl (fst (create_backtest r j st))"
  by (auto simp: create_backtest_def get_strategy_def split: sum.splits)

theorem request_validation_witness:
  "fst (create_backtest (request_with ''momentum_v1'' 5 5 1000) ''job-1'' empty_app_state)
     = Inl Bad_dates_400
   \<and> fst (create_backtest (request_with ''unknown'' 0 1 1000) ''job-1'' empty_app_state)
     = Inl Invalid_strategy_400
   \<and> snd (create_backtest (request_with ''momentum_v1'' 5 5 1000) ''job-1'' empty_app_state)
     = empty_app_state
   \<and> fst (create_backtest (request_with ''momentum_v1'' 0 1 1000) ''job-1'' empty_app_state)
     = Inr ''job-1''"
  using request_validation [of "request_with ''momentum_v1'' 5 5 1000" "''job-1''" empty_app_state 0]
    request_validation [of "request_with ''unknown'' 0 1 1000" "''job-1''" empty_app_state 0]
    request_validation [of "request_with ''momentum_v1'' 0 1 1000" "''job-1''" empty_app_state 0]
  by (auto simp: request_with_def strategy_ids_def create_backtest_def get_strategy_def)

subsection \<open>The loop and its invariant\<close>

lemma bt_loop_base: "n \<le> 80 \<Longrightarrow> bt_loop ar strat d n s = s"
  by (simp add: bt_loop_def)

lemma bt_loop_Suc:
  "80 \<le> n \<Longrightarrow> bt_loop ar strat d (Suc n) s = bt_step ar strat d n (bt_loop ar strat d n s)"
  by (simp add: bt_loop_def)

lemma last_take_Suc: "i < length d \<Longrightarrow> last (take (Suc i) d) = d ! i"
  by (simp add: take_Suc_conv_app_nth)

lemma bt_step_entry:
  "cur_position s = None \<Longrightarrow> check_entry_signal strat (take (i + 1) d) \<Longrightarrow>
   bt_step ar strat d i s =
     (open_position ar strat (take (i + 1) d) (ts (last (take (i + 1) d))) s)
       \<lparr>equity_curve := equity_curve s @ [(ts (last (take (i + 1) d)), current_capital s)]\<rparr>"
  by (simp add: bt_step_def Let_def open_position_def)

lemma bt_step_idle:
  "cur_position s = None \<Longrightarrow> \<not> check_entry_signal strat (take (i + 1) d) \<Longrightarrow>
   bt_step ar strat d i s =
     s\<lparr>equity_curve := equity_curve s @ [(ts (last (take (i + 1) d)), current_capital s)]\<rparr>"
  by (simp add: bt_step_def Let_def)

lemma bt_step_held:
  "cur_position s = Some pos \<Longrightarrow>
   bt_step ar strat d i s =
     (let s' = manage_position ar strat (last (take (i + 1) d)) pos s
      in s'\<lparr>equity_curve := equity_curve s' @ [(ts (last (take (i + 1) d)), current_capital s')]\<rparr>)"
  by (simp add: bt_step_def Let_def)

lemma exit_closed_mono: "exit_closed d n t \<Longrightarrow> n \<le> m \<Longrightarrow> exit_closed d m t"
  unfolding exit_closed_def by (meson atLeastLessThan_iff order.strict_trans2)

lemma list_all_exit_closed_mono:
  "list_all (exit_closed d n) xs \<Longrightarrow> n \<le> m \<Longrightarrow> list_all (exit_closed d m) xs"
  by (induction xs) (auto intro: exit_closed_mono)

lemma close_decision_reason:
  "close_decision ar c sl tp tr h e = Some r \<Longrightarrow> r \<in> {Stop_loss, Max_take_profit, Trailing_stop}"
  by (auto simp: close_decision_def split: if_splits)

lemma manage_position_equity: "equity_curve (manage_position ar strat c pos s) = equity_curve s"
  by (simp add: manage_position_def Let_def split: option.splits)

lemma loop_inv_step:
  assumes inv: "loop_inv d n s" and n: "80 \<le> n" "n < length d"
  shows "loop_inv d (Suc n) (bt_step ar strat d n s)"
proof (cases "cur_position s")
  case None
  with inv have all: "list_all (exit_closed d n) (trades s)"
    and len: "length (equity_curve s) = n - 80"
    by (auto simp: loop_inv_def)
  from all have all': "list_all (exit_closed d (Suc n)) (trades s)"
    by (rule list_all_exit_closed_mono) simp
  show ?thesis
  proof (cases "check_entry_signal strat (take (n + 1) d)")
    case True
    show ?thesis
      unfolding bt_step_entry [OF None True]
      using all' len n
      by (auto simp: loop_inv_def open_position_def Let_def held_trade_def trade_open_def
          last_take_Suc intro!: bexI [of _ n])
  next
    case False
    show ?thesis
      unfolding bt_step_idle [OF None False]
      using all' len n None by (auto simp: loop_inv_def)
  qed
next
  case (Some pos)
  with inv have ne: "trades s \<noteq> []"
    and all: "list_all (exit_closed d n) (butlast (trades s))"
    and held: "held_trade d n pos (last (trades s))"
    and len: "length (equity_curve s) = n - 80"
    by (auto simp: loop_inv_def)
  from all have all': "list_all (exit_closed d (Suc n)) (butlast (trades s))"
    by (rule list_all_exit_closed_mono) simp
  let ?c = "last (take (n + 1) d)"
  have c: "?c = d ! n" using n by (simp add: last_take_Suc)
  let ?dec = "close_decision ar (Fin (close ?c))
      (stop_loss (set_trailing_stop strat (p_entry_price pos)))
      (max_profit_target (set_trailing_stop strat (p_entry_price pos)))
      (d_mul ar (py_max (p_highest_price pos) (Fin (close ?c))) (d_lit ar 0.985))
      (py_max (p_highest_price pos) (Fin (close ?c))) (p_entry_price pos)"
  show ?thesis
  proof (cases ?dec)
    case None
    then show ?thesis
      unfolding bt_step_held [OF Some]
      using all' len n ne held
      by (auto simp: loop_inv_def manage_position_def Let_def held_trade_def)
  next
    case (Some r)
    from close_decision_reason [OF Some]
    have r: "r \<in> {Stop_loss, Max_take_profit, Trailing_stop}" .
    from held obtain a where a: "80 \<le> a" "a < n" "t_date (last (trades s)) = ts (d ! a)"
      by (auto simp: held_trade_def)
    have "exit_closed d (Suc n)
        (close_trade ar pnl (ts ?c) (Fin (close ?c)) r h e (last (trades s)))" for pnl h e
      unfolding exit_closed_def
    proof (rule bexI [of _ n], rule bexI [of _ a])
      show "t_date (close_trade ar pnl (ts ?c) (Fin (close ?c)) r h e (last (trades s))) = ts (d ! a)
          \<and> t_close_date (close_trade ar pnl (ts ?c) (Fin (close ?c)) r h e (last (trades s)))
              = Some (ts (d ! n))
          \<and> t_close_price (close_trade ar pnl (ts ?c) (Fin (close ?c)) r h e (last (trades s)))
              = Some (Fin (close (d ! n)))
          \<and> t_close_reason (close_trade ar pnl (ts ?c) (Fin (close ?c)) r h e (last (trades s)))
              \<in> {Some Stop_loss, Some Max_take_profit, Some Trailing_stop}"
        using a r c by (auto simp: close_trade_def)
      show "a \<in> {80..<n}" using a by simp
      show "n \<in> {80..<Suc n}" using n by simp
    qed
    then show ?thesis
      unfolding bt_step_held [OF \<open>cur_position s = Some pos\<close>]
      using all' len n ne Some
      by (auto simp: loop_inv_def manage_position_def Let_def update_last_def)
  qed
qed

lemma loop_inv_init: "loop_inv d 80 (bt_init cap)"
  by (simp add: loop_inv_def bt_init_def)

lemma bt_loop_inv:
  assumes "80 \<le> n" "n \<le> length d"
  shows "loop_inv d n (bt_loop ar strat d n (bt_init cap))"
  using assms
proof (induction n)
  case 0
  then show ?case by simp
next
  case (Suc n)
  show ?case
  proof (cases "Suc n = 80")
    case True
    then show ?thesis by (simp add: bt_loop_base loop_inv_init)
  next
    case False
    with Suc.prems have n: "80 \<le> n" "n < length d" by auto
    with Suc.IH have "loop_inv d n (bt_loop ar strat d n (bt_init cap))" by simp
    from loop_inv_step [OF this n] show ?thesis
      by (simp add: bt_loop_Suc n)
  qed
qed

subsection \<open>The breakout signal on a flat series, and worked runs\<close>

lemma last_rolling_std:
  assumes "2 \<le> w" and "w \<le> length xs"
  shows "last (rolling_std w xs) = Fin (sample_std (drop (length xs - w) xs))"
proof -
  from assms have ne: "xs \<noteq> []" by auto
  then have n: "[0..<length xs] = [0..<length xs - 1] @ [length xs - 1]"
    by (cases "length xs") auto
  have "last (rolling_std w xs) =
      (if length xs - 1 + 1 < w \<or> w < 2 then NaN
       else Fin (sample_std (take w (drop (length xs - 1 + 1 - w) xs))))"
    unfolding rolling_std_def by (subst n) simp
  also from assms ne have "\<dots> = Fin (sample_std (take w (drop (length xs - w) xs)))"
    by (simp add: Suc_leI)
  also from assms have "take w (drop (length xs - w) xs) = drop (length xs - w) xs"
    by simp
  finally show ?thesis .
qed

lemma sum_list_const: "\<forall>x\<in>set ws. x = p \<Longrightarrow> sum_list ws = real (length ws) * p"
  by (induction ws) (auto simp: algebra_simps)

lemma sample_std_const:
  assumes "\<forall>x\<in>set ws. x = p" and "ws \<noteq> []"
  shows "sample_std ws = 0"
proof -
  from assms(2) have n: "real (length ws) \<noteq> 0" by simp
  have m: "sum_list ws / real (length ws) = p"
    using sum_list_const [OF assms(1)] n by simp
  have "map (\<lambda>x. (x - p)\<^sup>2) ws = replicate (length ws) 0"
    using assms(1) by (intro replicate_eqI) auto
  then show ?thesis
    by (simp add: sample_std_def Let_def m sum_list_replicate)
qed

lemma last_map2:
  "xs \<noteq> [] \<Longrightarrow> length xs = length ys \<Longrightarrow> last (map2 f xs ys) = f (last xs) (last ys)"
  by (cases ys) (simp_all add: last_conv_nth)

lemma length_rolling_mean [simp]: "length (rolling_mean w xs) = length xs"
  by (simp add: rolling_mean_def)

lemma length_rolling_std [simp]: "length (rolling_std w xs) = length xs"
  by (simp add: rolling_std_def)

lemma bands_flat:
  assumes w: "2 \<le> w" "w \<le> length cs" and flat: "\<forall>c\<in>set cs. close c = p"
  shows "last (fst (calculate_bollinger_bands cs w k)) = Fin p"
    and "last (snd (snd (calculate_bollinger_bands cs w k))) = Fin p"
proof -
  from w have ne: "cs \<noteq> []" by auto
  let ?xs = "map close cs"
  have allp: "\<forall>x\<in>set (drop (length ?xs - w) ?xs). x = p"
    using flat by (auto dest!: in_set_dropD)
  have dne: "drop (length ?xs - w) ?xs \<noteq> []" using w by simp
  have sd: "last (rolling_std w ?xs) = Fin 0"
    using last_rolling_std [of w ?xs] w sample_std_const [OF allp dne] by simp
  have "drop (length ?xs - w) ?xs = replicate w p"
    using allp w by (intro replicate_eqI) auto
  then have mn: "last (rolling_mean w ?xs) = Fin p"
    using last_rolling_mean [of w ?xs] w by (simp add: sum_list_replicate)
  have mne: "rolling_mean w ?xs \<noteq> []" and sne: "rolling_std w ?xs \<noteq> []"
    using ne by (simp_all add: rolling_mean_def rolling_std_def)
  have scaled: "last (map (\<lambda>s. fmul s (Fin k)) (rolling_std w ?xs)) = Fin 0"
    using sne by (simp add: last_map sd)
  have up: "last (map2 fadd (rolling_mean w ?xs) (map (\<lambda>s. fmul s (Fin k)) (rolling_std w ?xs)))
      = fadd (last (rolling_mean w ?xs)) (last (map (\<lambda>s. fmul s (Fin k)) (rolling_std w ?xs)))"
    using mne by (intro last_map2) simp_all
  have lo: "last (map2 fsub (rolling_mean w ?xs) (map (\<lambda>s. fmul s (Fin k)) (rolling_std w ?xs)))
      = fsub (last (rolling_mean w ?xs)) (last (map (\<lambda>s. fmul s (Fin k)) (rolling_std w ?xs)))"
    using mne by (intro last_map2) simp_all
  show "last (fst (calculate_bollinger_bands cs w k)) = Fin p"
    by (simp add: calculate_bollinger_bands_def Let_def up scaled mn)
  show "last (snd (snd (calculate_bollinger_bands cs w k))) = Fin p"
    by (simp add: calculate_bollinger_bands_def Let_def lo scaled mn)
qed

lemma bollinger_signal_flat:
  assumes "80 \<le> length cs" and "\<forall>c\<in>set cs. close c = p"
  shows "bollinger_check_entry_signal cs
     = (open_price (last cs) < p \<and> high (last cs) > 2 * p \<and> p > open_price (last cs))"
proof -
  from assms(1) have ne: "cs \<noteq> []" by auto
  have c: "close (last cs) = p" using assms(2) ne by simp
  have b20: "2 \<le> (20::nat)" "20 \<le> length cs" and b80: "2 \<le> (80::nat)" "80 \<le> length cs"
    using assms(1) by auto
  show ?thesis
    using assms(1) bands_flat [OF b20 assms(2), of 2] bands_flat [OF b80 assms(2), of 2]
    by (simp add: bollinger_check_entry_signal_def Let_def split_beta c fgt_def)
qed

lemma signal_series_entry_last: "bollinger_check_entry_signal series_entry_last"
proof -
  have "bollinger_check_entry_signal series_entry_last
     = (open_price (last series_entry_last) < 100 \<and> high (last series_entry_last) > 2 * 100
        \<and> 100 > open_price (last series_entry_last))"
    by (rule bollinger_signal_flat)
      (auto simp: series_entry_last_def flat_prefix_def breakout_candle_def mk_candle_def)
  then show ?thesis
    by (simp add: series_entry_last_def breakout_candle_def mk_candle_def)
qed


lemma length_flat_prefix [simp]: "length flat_prefix = 80"
  by (simp add: flat_prefix_def)

lemma step_80_enters:
  assumes "take 81 d = series_entry_last"
  shows "bt_step exact_arith exact_bollinger d 80 (bt_init 1000) = entered_state"
proof -
  have sig: "check_entry_signal exact_bollinger (take (80 + 1) d)"
    using assms signal_series_entry_last
    by (simp add: exact_bollinger_def bollinger_strategy_def)
  have none: "cur_position (bt_init 1000) = None" by (simp add: bt_init_def)
  have l: "last series_entry_last = breakout_candle"
    by (simp add: series_entry_last_def)
  show ?thesis
    unfolding bt_step_entry [OF none sig]
    using assms
    by (simp add: open_position_def Let_def exact_bollinger_def bollinger_strategy_def
        bt_init_def l breakout_candle_def mk_candle_def bollinger_get_entry_price_def
        bollinger_get_position_size_ratio_def entered_state_def entry_position_def
        entry_trade_def)
qed

lemma step_81_stops:
  assumes "81 < length d" and "d ! 81 = mk_candle 81 100 100 90 90"
  shows "bt_step exact_arith exact_bollinger d 81 entered_state = stopped_state"
proof -
  have c: "last (take (81 + 1) d) = mk_candle 81 100 100 90 90"
    using assms last_take_Suc [of 81 d] by simp
  have m: "manage_position exact_arith exact_bollinger (mk_candle 81 100 100 90 90)
        entry_position entered_state
      = \<lparr>current_capital = Fin (1000 - 5700 / 199), cur_position = None,
         trades = [stopped_trade], equity_curve = [(80, Fin 1000)]\<rparr>"
    by (simp add: manage_position_def Let_def entry_position_def entered_state_def
        exact_bollinger_def bollinger_strategy_def bollinger_set_trailing_stop_def
        close_decision_def py_max_def fgt_def fge_def mk_candle_def update_last_def
        stopped_trade_def)
  have "bt_step exact_arith exact_bollinger d 81 entered_state
      = (let s' = manage_position exact_arith exact_bollinger (last (take (81 + 1) d))
               entry_position entered_state
         in s'\<lparr>equity_curve := equity_curve s'
              @ [(ts (last (take (81 + 1) d)), current_capital s')]\<rparr>)"
    by (rule bt_step_held) (simp add: entered_state_def)
  also have "\<dots> = stopped_state"
    unfolding c m by (simp add: mk_candle_def stopped_state_def)
  finally show ?thesis .
qed

lemma take_81_series_stopped: "take 81 series_stopped = series_entry_last"
  by (simp add: series_stopped_def series_entry_last_def)

lemma loop_81_enters:
  assumes "take 81 d = series_entry_last"
  shows "bt_loop exact_arith exact_bollinger d 81 (bt_init 1000) = entered_state"
proof -
  have "bt_loop exact_arith exact_bollinger d (Suc 80) (bt_init 1000)
      = bt_step exact_arith exact_bollinger d 80
          (bt_loop exact_arith exact_bollinger d 80 (bt_init 1000))"
    by (rule bt_loop_Suc) simp
  then show ?thesis
    by (simp add: bt_loop_base step_80_enters [OF assms])
qed

lemma loop_82_stops:
  assumes "take 81 d = series_entry_last" and "81 < length d"
    and "d ! 81 = mk_candle 81 100 100 90 90"
  shows "bt_loop exact_arith exact_bollinger d 82 (bt_init 1000) = stopped_state"
proof -
  have "bt_loop exact_arith exact_bollinger d (Suc 81) (bt_init 1000)
      = bt_step exact_arith exact_bollinger d 81
          (bt_loop exact_arith exact_bollinger d 81 (bt_init 1000))"
    by (rule bt_loop_Suc) simp
  then show ?thesis
    by (simp add: loop_81_enters [OF assms(1)] step_81_stops [OF assms(2,3)])
qed

lemma loop_series_entry_last:
  "bt_loop exact_arith exact_bollinger series_entry_last 81 (bt_init 1000) = entered_state"
  by (rule loop_81_enters) (simp add: series_entry_last_def)

lemma run_series_entry_last:
  "trades (run_trading exact_arith exact_bollinger series_entry_last 1000)
     = [close_trade exact_arith (Fin (300 / 199)) 80 (Fin 100) Backtest_end (Fin (995 / 10))
          (Fin (995 / 10)) entry_trade]"
proof -
  have len: "length series_entry_last = 81" by (simp add: series_entry_last_def)
  show ?thesis
    unfolding run_trading_def len loop_series_entry_last
    by (simp add: close_at_end_def entered_state_def Let_def entry_position_def
        update_last_def series_entry_last_def breakout_candle_def mk_candle_def)
qed

lemma loop_series_stopped_81:
  "bt_loop exact_arith exact_bollinger series_stopped 81 (bt_init 1000) = entered_state"
  by (rule loop_81_enters) (rule take_81_series_stopped)

lemma loop_series_stopped:
  "bt_loop exact_arith exact_bollinger series_stopped 82 (bt_init 1000) = stopped_state"
  by (rule loop_82_stops)
    (simp_all add: take_81_series_stopped, simp_all add: series_stopped_def nth_append)

lemma run_series_stopped:
  "trades (run_trading exact_arith exact_bollinger series_stopped 1000) = [stopped_trade]"
proof -
  have len: "length series_stopped = 82" by (simp add: series_stopped_def)
  show ?thesis
    unfolding run_trading_def len loop_series_stopped
    by (simp add: close_at_end_def stopped_state_def)
qed

text \<open>The bands at the last candle in general, and the signal of the second
  breakout candle of \<open>series_two_trades\<close>: the windows are no longer flat, their
  standard deviations are the square roots of 5 and of 5/4.\<close>

lemma bands_last:
  assumes w: "2 \<le> w" "w \<le> length cs"
  shows "last (fst (calculate_bollinger_bands cs w k))
           = Fin (window_mean w cs + window_std w cs * k)"
    and "last (snd (snd (calculate_bollinger_bands cs w k)))
           = Fin (window_mean w cs - window_std w cs * k)"
proof -
  from w have ne: "cs \<noteq> []" by auto
  let ?xs = "map close cs"
  have sd: "last (rolling_std w ?xs) = Fin (window_std w cs)"
    using last_rolling_std [of w ?xs] w by (simp add: window_std_def)
  have mn: "last (rolling_mean w ?xs) = Fin (window_mean w cs)"
    using last_rolling_mean [of w ?xs] w by (simp add: window_mean_def)
  have mne: "rolling_mean w ?xs \<noteq> []" and sne: "rolling_std w ?xs \<noteq> []"
    using ne by (simp_all add: rolling_mean_def rolling_std_def)
  have scaled: "last (map (\<lambda>s. fmul s (Fin k)) (rolling_std w ?xs)) = Fin (window_std w cs * k)"
    using sne by (simp add: last_map sd)
  have up: "last (map2 fadd (rolling_mean w ?xs) (map (\<lambda>s. fmul s (Fin k)) (rolling_std w ?xs)))
      = fadd (last (rolling_mean w ?xs)) (last (map (\<lambda>s. fmul s (Fin k)) (rolling_std w ?xs)))"
    using mne by (intro last_map2) simp_all
  have lo: "last (map2 fsub (rolling_mean w ?xs) (map (\<lambda>s. fmul s (Fin k)) (rolling_std w ?xs)))
      = fsub (last (rolling_mean w ?xs)) (last (map (\<lambda>s. fmul s (Fin k)) (rolling_std w ?xs)))"
    using mne by (intro last_map2) simp_all
  show "last (fst (calculate_bollinger_bands cs w k))
      = Fin (window_mean w cs + window_std w cs * k)"
    by (simp add: calculate_bollinger_bands_def Let_def up scaled mn)
  show "last (snd (snd (calculate_bollinger_bands cs w k)))
      = Fin (window_mean w cs - window_std w cs * k)"
    by (simp add: calculate_bollinger_bands_def Let_def lo scaled mn)
qed

lemma bollinger_signal_last:
  assumes "80 \<le> length cs"
  shows "bollinger_check_entry_signal cs
     = (open_price (last cs) < window_mean 20 cs - window_std 20 cs * 2
        \<and> high (last cs) > (window_mean 20 cs + window_std 20 cs * 2)
                            + (window_mean 80 cs + window_std 80 cs * 2)
        \<and> close (last cs) > open_price (last cs))"
proof -
  have b20: "2 \<le> (20::nat)" "20 \<le> length cs" and b80: "2 \<le> (80::nat)" "80 \<le> length cs"
    using assms by auto
  show ?thesis
    using assms bands_last [OF b20, of 2] bands_last [OF b80, of 2]
    by (simp add: bollinger_check_entry_signal_def Let_def split_beta fgt_def)
qed

lemma closes_second_signal:
  "map close (take 83 series_two_trades) = replicate 80 100 @ [100, 90, 100]"
  by (simp add: series_two_trades_def flat_prefix_def breakout_candle_def mk_candle_def
      map_replicate_const o_def)

lemma window_20_second:
  "window_mean 20 (take 83 series_two_trades) = 995 / 10"
  "window_std 20 (take 83 series_two_trades) = sqrt 5"
proof -
  have len: "length (take 83 series_two_trades) = 83"
    by (simp add: series_two_trades_def)
  have d: "drop (83 - 20) (map close (take 83 series_two_trades))
      = replicate 17 100 @ [100, 90, 100]"
    unfolding closes_second_signal by simp
  show "window_mean 20 (take 83 series_two_trades) = 995 / 10"
    unfolding window_mean_def len d by (simp add: sum_list_replicate)
  show "window_std 20 (take 83 series_two_trades) = sqrt 5"
    unfolding window_std_def len d
    by (simp add: sample_std_def Let_def sum_list_replicate power2_eq_square)
qed

lemma window_80_second:
  "window_mean 80 (take 83 series_two_trades) = 7990 / 80"
  "window_std 80 (take 83 series_two_trades) = sqrt (5 / 4)"
proof -
  have len: "length (take 83 series_two_trades) = 83"
    by (simp add: series_two_trades_def)
  have d: "drop (83 - 80) (map close (take 83 series_two_trades))
      = replicate 77 100 @ [100, 90, 100]"
    unfolding closes_second_signal by simp
  show "window_mean 80 (take 83 series_two_trades) = 7990 / 80"
    unfolding window_mean_def len d by (simp add: sum_list_replicate)
  have "sample_std (replicate 77 100 @ [100, 90, 100]) = sqrt (5 / 4)"
    by (simp add: sample_std_def Let_def sum_list_replicate power2_eq_square)
  then show "window_std 80 (take 83 series_two_trades) = sqrt (5 / 4)"
    unfolding window_std_def len d .
qed

lemma signal_second_breakout:
  "bollinger_check_entry_signal (take 83 series_two_trades)"
proof -
  have s5: "sqrt 5 < 3" by (rule real_less_lsqrt) simp_all
  have s54: "sqrt (5 / 4) < 2" by (rule real_less_lsqrt) simp_all
  have l: "last (take 83 series_two_trades) = mk_candle 82 90 250 90 100"
    by (simp add: series_two_trades_def)
  have "80 \<le> length (take 83 series_two_trades)"
    by (simp add: series_two_trades_def)
  from bollinger_signal_last [OF this] show ?thesis
    unfolding window_20_second window_80_second l
    using s5 s54 by (simp add: mk_candle_def)
qed

lemma step_82_enters_again:
  "bt_step exact_arith exact_bollinger series_two_trades 82 stopped_state
     = second_entered_state"
proof -
  have sig: "check_entry_signal exact_bollinger (take (82 + 1) series_two_trades)"
    using signal_second_breakout by (simp add: exact_bollinger_def bollinger_strategy_def)
  have none: "cur_position stopped_state = None" by (simp add: stopped_state_def)
  have l: "last (take 83 series_two_trades) = mk_candle 82 90 250 90 100"
    by (simp add: series_two_trades_def)
  show ?thesis
    unfolding bt_step_entry [OF none sig]
    by (simp add: open_position_def Let_def exact_bollinger_def bollinger_strategy_def l
        mk_candle_def bollinger_get_entry_price_def bollinger_get_position_size_ratio_def
        stopped_state_def second_entered_state_def second_position_def
        second_entry_trade_def)
qed

lemma step_83_takes_profit:
  "bt_step exact_arith exact_bollinger series_two_trades 83 second_entered_state = won_state"
proof -
  have c: "last (take (83 + 1) series_two_trades) = mk_candle 83 100 310 100 310"
    by (simp add: series_two_trades_def)
  have m: "manage_position exact_arith exact_bollinger (mk_candle 83 100 310 100 310)
        second_position second_entered_state
      = \<lparr>current_capital = Fin (1000 - 5700 / 199 + 24413790 / 39601), cur_position = None,
         trades = [stopped_trade, won_trade],
         equity_curve = [(80, Fin 1000), (81, Fin (1000 - 5700 / 199)),
                         (82, Fin (1000 - 5700 / 199))]\<rparr>"
    by (simp add: manage_position_def Let_def second_position_def second_entered_state_def
        exact_bollinger_def bollinger_strategy_def bollinger_set_trailing_stop_def
        close_decision_def py_max_def fgt_def fge_def mk_candle_def update_last_def
        won_trade_def)
  have "bt_step exact_arith exact_bollinger series_two_trades 83 second_entered_state
      = (let s' = manage_position exact_arith exact_bollinger
               (last (take (83 + 1) series_two_trades)) second_position second_entered_state
         in s'\<lparr>equity_curve := equity_curve s'
              @ [(ts (last (take (83 + 1) series_two_trades)), current_capital s')]\<rparr>)"
    by (rule bt_step_held) (simp add: second_entered_state_def)
  also have "\<dots> = won_state"
    unfolding c m by (simp add: mk_candle_def won_state_def)
  finally show ?thesis .
qed

lemma loop_series_two_trades:
  "bt_loop exact_arith exact_bollinger series_two_trades 84 (bt_init 1000) = won_state"
proof -
  have t: "take 81 series_two_trades = series_entry_last"
    by (simp add: series_two_trades_def series_entry_last_def)
  have n: "81 < length series_two_trades"
    "series_two_trades ! 81 = mk_candle 81 100 100 90 90"
    by (simp_all add: series_two_trades_def nth_append)
  have a: "bt_loop exact_arith exact_bollinger series_two_trades 82 (bt_init 1000)
      = stopped_state"
    by (rule loop_82_stops [OF t n])
  have "bt_loop exact_arith exact_bollinger series_two_trades (Suc 82) (bt_init 1000)
      = bt_step exact_arith exact_bollinger series_two_trades 82
          (bt_loop exact_arith exact_bollinger series_two_trades 82 (bt_init 1000))"
    by (rule bt_loop_Suc) simp
  then have b: "bt_loop exact_arith exact_bollinger series_two_trades 83 (bt_init 1000)
      = second_entered_state"
    by (simp add: a step_82_enters_again)
  have "bt_loop exact_arith exact_bollinger series_two_trades (Suc 83) (bt_init 1000)
      = bt_step exact_arith exact_bollinger series_two_trades 83
          (bt_loop exact_arith exact_bollinger series_two_trades 83 (bt_init 1000))"
    by (rule bt_loop_Suc) simp
  then show ?thesis
    by (simp add: b step_83_takes_profit)
qed

lemma run_series_two_trades:
  "run_trading exact_arith exact_bollinger series_two_trades 1000 = won_state"
proof -
  have len: "length series_two_trades = 84" by (simp add: series_two_trades_def)
  show ?thesis
    unfolding run_trading_def len loop_series_two_trades
    by (simp add: close_at_end_def won_state_def)
qed

subsection \<open>The profit factor\<close>

lemma rounds_toE:
  assumes "rounds_to v x"
  obtains r where "v = Fin r" and "near r x"
  using assms by (cases v) (auto simp: rounds_to_def)

lemma near_int: "near r (of_int n) \<Longrightarrow> r = of_int n"
  by (simp add: near_def)

lemma near_abs: "near r x \<Longrightarrow> \<bar>r - x\<bar> \<le> \<bar>x\<bar> / 2 ^ 53"
  by (simp add: near_def)

lemma ieee_lit:
  assumes "ieee_like ar" and "in_range x"
  obtains r where "d_lit ar x = Fin r" and "near r x"
  using assms unfolding ieee_like_def by (meson rounds_toE)

lemma ieee_add:
  assumes "ieee_like ar" and "in_range (a + b)"
  obtains r where "d_add ar (Fin a) (Fin b) = Fin r" and "near r (a + b)"
  using assms unfolding ieee_like_def by (meson rounds_toE)

lemma ieee_sub:
  assumes "ieee_like ar" and "in_range (a - b)"
  obtains r where "d_sub ar (Fin a) (Fin b) = Fin r" and "near r (a - b)"
  using assms unfolding ieee_like_def by (meson rounds_toE)

lemma ieee_mul:
  assumes "ieee_like ar" and "in_range (a * b)"
  obtains r where "d_mul ar (Fin a) (Fin b) = Fin r" and "near r (a * b)"
  using assms unfolding ieee_like_def by (meson rounds_toE)

lemma ieee_div:
  assumes "ieee_like ar" and "b \<noteq> 0" and "in_range (a / b)"
  obtains r where "d_div ar (Fin a) (Fin b) = Fin r" and "near r (a / b)"
  using assms unfolding ieee_like_def by (meson rounds_toE)

lemma ieee_round2:
  assumes "ieee_like ar" and "\<bar>x\<bar> \<le> 2 ^ 20"
  obtains k :: int and r where "\<bar>of_int k - 100 * x\<bar> \<le> 1 / 2 + 1 / 2 ^ 20"
    and "d_round2 ar (Fin x) = Fin r" and "near r (of_int k / 100)"
proof -
  from assms obtain k :: int where k: "\<bar>of_int k - 100 * x\<bar> \<le> 1 / 2 + 1 / 2 ^ 20"
    "rounds_to (d_round2 ar (Fin x)) (of_int k / 100)"
    unfolding ieee_like_def by blast
  from k(2) obtain r where "d_round2 ar (Fin x) = Fin r" "near r (of_int k / 100)"
    by (rule rounds_toE)
  with k(1) that show ?thesis by blast
qed

lemma round2_within:
  assumes "ieee_like ar" and "\<bar>q\<bar> \<le> 2 ^ 20"
  shows "\<exists>r. d_round2 ar (Fin q) = Fin r \<and> \<bar>r - q\<bar> \<le> 51 / 10000"
proof -
  from ieee_round2 [OF assms] obtain k :: int and r
    where k: "\<bar>of_int k - 100 * q\<bar> \<le> 1 / 2 + 1 / 2 ^ 20"
      and r: "d_round2 ar (Fin q) = Fin r" and n: "near r (of_int k / 100)" by blast
  from k have kq: "\<bar>of_int k / 100 - q\<bar> \<le> (1 / 2 + 1 / 2 ^ 20) / 100"
    by (simp add: abs_le_iff field_simps)
  have tri: "\<bar>of_int k / 100 :: real\<bar> \<le> \<bar>of_int k / 100 - q\<bar> + \<bar>q\<bar>"
    by linarith
  with kq assms(2) have kb: "\<bar>of_int k / 100 :: real\<bar> \<le> 2 ^ 20 + 1"
    by simp
  have "\<bar>of_int k / 100 :: real\<bar> / 2 ^ 53 \<le> (2 ^ 20 + 1) / 2 ^ 53"
    using kb by (intro divide_right_mono) simp_all
  with near_abs [OF n] have e: "\<bar>r - of_int k / 100\<bar> \<le> (2 ^ 20 + 1) / 2 ^ 53"
    by linarith
  have "\<bar>r - q\<bar> \<le> \<bar>r - of_int k / 100\<bar> + \<bar>of_int k / 100 - q\<bar>"
    by linarith
  with e kq have "\<bar>r - q\<bar> \<le> (1 / 2 + 1 / 2 ^ 20) / 100 + (2 ^ 20 + 1) / 2 ^ 53"
    by linarith
  also have "\<dots> \<le> 51 / 10000" by simp
  finally show ?thesis using r by blast
qed

lemma py_sum_none: "py_sum ar [] = Fin 0"
  by (simp add: py_sum_def)

lemma sum_losing_none:
  "\<forall>t\<in>set trs. \<not> flt (t_pnl t) (Fin 0) \<Longrightarrow> sum_losing ar trs = Fin 0"
proof -
  assume "\<forall>t\<in>set trs. \<not> flt (t_pnl t) (Fin 0)"
  then have "filter (\<lambda>t. flt (t_pnl t) (Fin 0)) trs = []"
    by (simp add: filter_empty_conv)
  then show ?thesis by (simp add: sum_losing_def py_sum_none)
qed

lemma length_update_last [simp]: "length (update_last f xs) = length xs"
  by (simp add: update_last_def)

lemma run_short_series:
  assumes "length d \<le> 80"
  shows "run_trading ar strat d cap = bt_init cap"
  using assms by (simp add: run_trading_def bt_loop_base close_at_end_def bt_init_def)

lemma run_equity_length:
  assumes "80 \<le> length d"
  shows "length (equity_curve (run_trading ar strat d cap)) = length d - 80"
proof -
  let ?e = "bt_loop ar strat d (length d) (bt_init cap)"
  have "loop_inv d (length d) ?e" by (rule bt_loop_inv [OF assms]) simp
  then have "length (equity_curve ?e) = length d - 80" by (simp add: loop_inv_def)
  then show ?thesis
    by (simp add: run_trading_def close_at_end_def Let_def split: option.splits)
qed

text \<open>Claim C7 says that the profit factor equals the quotient of the winning sum
  and the absolute losing sum. The code rounds the quotient to two decimals: for a
  ledger with the pnls 1 and -3 it reports 0.33 in exact arithmetic, and in no
  arithmetic that rounds as doubles do does it report the quotient.\<close>

theorem profit_factor_counterexample:
  "profit_factor exact_arith [trade_with_pnl 1, trade_with_pnl (- 3)] = Fin (33 / 100)
   \<and> d_div exact_arith (sum_winning exact_arith [trade_with_pnl 1, trade_with_pnl (- 3)])
        (fabs (sum_losing exact_arith [trade_with_pnl 1, trade_with_pnl (- 3)])) = Fin (1 / 3)
   \<and> \<not> (\<exists>ar. ieee_like ar
          \<and> profit_factor ar [trade_with_pnl 1, trade_with_pnl (- 3)]
            = d_div ar (sum_winning ar [trade_with_pnl 1, trade_with_pnl (- 3)])
                (fabs (sum_losing ar [trade_with_pnl 1, trade_with_pnl (- 3)])))"
proof -
  let ?L = "[trade_with_pnl 1, trade_with_pnl (- 3)]"
  have w: "sum_winning ar ?L = d_add ar (Fin 0) (Fin 1)" for ar
    by (simp add: sum_winning_def py_sum_def trade_with_pnl_def fgt_def)
  have l: "sum_losing ar ?L = d_add ar (Fin 0) (Fin (- 3))" for ar
    by (simp add: sum_losing_def py_sum_def trade_with_pnl_def)
  have fl: "\<lfloor>(100::real) / 3\<rfloor> = 33" by linarith
  have a: "profit_factor exact_arith ?L = Fin (33 / 100)"
    by (simp add: profit_factor_def w l fne_def py_round2_def Let_def fl)
  have b: "d_div exact_arith (sum_winning exact_arith ?L)
      (fabs (sum_losing exact_arith ?L)) = Fin (1 / 3)"
    by (simp add: w l)
  have c: "profit_factor ar ?L \<noteq> d_div ar (sum_winning ar ?L) (fabs (sum_losing ar ?L))"
    if ar: "ieee_like ar" for ar
  proof -
    have "in_range (0 + 1)" by (simp add: in_range_def)
    from ieee_add [OF ar this] obtain r1
      where "d_add ar (Fin 0) (Fin 1) = Fin r1" "near r1 (0 + 1)" by blast
    with near_int [of r1 1] have w1: "sum_winning ar ?L = Fin 1" by (simp add: w)
    have "in_range (0 + (- 3))" by (simp add: in_range_def)
    from ieee_add [OF ar this] obtain r3
      where "d_add ar (Fin 0) (Fin (- 3)) = Fin r3" "near r3 (0 + (- 3))" by blast
    with near_int [of r3 "- 3"] have l3: "sum_losing ar ?L = Fin (- 3)" by (simp add: l)
    have "in_range (1 / 3)" by (simp add: in_range_def)
    from ieee_div [OF ar _ this] obtain q
      where q: "d_div ar (Fin 1) (Fin 3) = Fin q" "near q (1 / 3)" by auto
    have "\<bar>1 / 3 :: real\<bar> / 2 ^ 53 \<le> 1 / 3000" by simp
    with near_abs [OF q(2)] have "\<bar>q - 1 / 3\<bar> \<le> 1 / 3000" by linarith
    then have qb: "333 / 1000 \<le> q" "q \<le> 3337 / 10000" by linarith+
    then have "\<bar>q\<bar> \<le> 2 ^ 20" by simp
    from ieee_round2 [OF ar this] obtain k :: int and r
      where k: "\<bar>of_int k - 100 * q\<bar> \<le> 1 / 2 + 1 / 2 ^ 20"
        and r: "d_round2 ar (Fin q) = Fin r" and n: "near r (of_int k / 100)" by blast
    have "(1 / 2 + 1 / 2 ^ 20 :: real) \<le> 6 / 10" by simp
    with k have "\<bar>of_int k - 100 * q\<bar> \<le> 6 / 10" by linarith
    with qb have "32 < (of_int k :: real)" "(of_int k :: real) < 34" by linarith+
    then have k33: "k = 33" by linarith
    have "\<bar>33 / 100 :: real\<bar> / 2 ^ 53 \<le> 1 / 1000" by simp
    with near_abs [OF n] k33 have "\<bar>r - 33 / 100\<bar> \<le> 1 / 1000" by simp
    then have "r \<le> 331 / 1000" by linarith
    with qb have "r \<noteq> q" by simp
    then show ?thesis
      by (simp add: profit_factor_def w1 l3 fne_def q r)
  qed
  from a b c show ?thesis by blast
qed

text \<open>Claim C7, amended. A run on at most 80 candles ends with an exception and
  reports nothing; a run on more candles with a capital other than 0 completes. For
  every completed run the profit factor is the quotient, computed in doubles, of the
  sum of the winning pnls and the absolute value of the sum of the losing pnls,
  rounded by \<open>round(..., 2)\<close>: in an arithmetic that rounds as doubles do it is within
  0.0051 of that quotient. When the run has no losing trade (the losing sum is 0) it
  is exactly 0.\<close>

theorem profit_factor_rounded_quotient:
  "(length d \<le> 80 \<longrightarrow> (\<exists>e. run_profit_factor ar strat d cap = Inl e))
   \<and> (80 < length d \<and> cap \<noteq> 0 \<longrightarrow>
        run_profit_factor ar strat d cap
          = Inr (profit_factor ar (trades (run_trading ar strat d cap))))
   \<and> (run_profit_factor ar strat d cap = Inr pf \<longrightarrow>
        ((\<forall>t\<in>set (trades (run_trading ar strat d cap)). \<not> flt (t_pnl t) (Fin 0)) \<longrightarrow>
           pf = Fin 0)
        \<and> (\<not> fne (sum_losing ar (trades (run_trading ar strat d cap))) (Fin 0) \<longrightarrow>
           pf = Fin 0)
        \<and> (fne (sum_losing ar (trades (run_trading ar strat d cap))) (Fin 0) \<longrightarrow>
           pf = d_round2 ar
                  (d_div ar (sum_winning ar (trades (run_trading ar strat d cap)))
                     (fabs (sum_losing ar (trades (run_trading ar strat d cap)))))
           \<and> (\<forall>q. ieee_like ar \<and> \<bar>q\<bar> \<le> 2 ^ 20
                  \<and> d_div ar (sum_winning ar (trades (run_trading ar strat d cap)))
                       (fabs (sum_losing ar (trades (run_trading ar strat d cap)))) = Fin q
                \<longrightarrow> (\<exists>r. pf = Fin r \<and> \<bar>r - q\<bar> \<le> 51 / 10000))))"
proof -
  let ?T = "trades (run_trading ar strat d cap)"
  have short: "length d \<le> 80 \<longrightarrow> (\<exists>e. run_profit_factor ar strat d cap = Inl e)"
    by (auto simp: run_profit_factor_def run_short_series bt_init_def Let_def)
  have long: "80 < length d \<and> cap \<noteq> 0 \<longrightarrow>
        run_profit_factor ar strat d cap = Inr (profit_factor ar ?T)"
  proof (intro impI, elim conjE)
    assume len: "80 < length d" and cap: "cap \<noteq> 0"
    from len have "length (equity_curve (run_trading ar strat d cap)) = length d - 80"
      by (intro run_equity_length) simp
    with len have "equity_curve (run_trading ar strat d cap) \<noteq> []" by auto
    with cap show "run_profit_factor ar strat d cap = Inr (profit_factor ar ?T)"
      by (simp add: run_profit_factor_def Let_def)
  qed
  have pf: "pf = profit_factor ar ?T" if "run_profit_factor ar strat d cap = Inr pf"
    using that by (simp add: run_profit_factor_def Let_def split: if_splits)
  have none: "(\<forall>t\<in>set ?T. \<not> flt (t_pnl t) (Fin 0)) \<longrightarrow> profit_factor ar ?T = Fin 0"
    using sum_losing_none [of ?T ar] by (auto simp: profit_factor_def fne_def)
  have zero: "\<not> fne (sum_losing ar ?T) (Fin 0) \<longrightarrow> profit_factor ar ?T = Fin 0"
    by (simp add: profit_factor_def)
  have quot: "fne (sum_losing ar ?T) (Fin 0) \<longrightarrow>
      profit_factor ar ?T = d_round2 ar (d_div ar (sum_winning ar ?T) (fabs (sum_losing ar ?T)))"
    by (simp add: profit_factor_def)
  have bound: "\<exists>r. profit_factor ar ?T = Fin r \<and> \<bar>r - q\<bar> \<le> 51 / 10000"
    if "fne (sum_losing ar ?T) (Fin 0)" "ieee_like ar" "\<bar>q\<bar> \<le> 2 ^ 20"
      "d_div ar (sum_winning ar ?T) (fabs (sum_losing ar ?T)) = Fin q" for q
    using round2_within [OF that(2,3)] that(1,4) by (simp add: profit_factor_def)
  from short long pf none zero quot bound show ?thesis by blast
qed

text \<open>In exact arithmetic: the run with a losing and a winning trade has the
  quotient (24413790/39601) / (5700/199) = 21.523... and reports 21.52; the run that
  enters on its last candle has one winning trade, no losing one, and reports 0; on
  80 candles the run fails.\<close>

lemma profit_factor_two_trades:
  "profit_factor exact_arith [stopped_trade, won_trade] = Fin (2152 / 100)"
proof -
  have w: "sum_winning exact_arith [stopped_trade, won_trade] = Fin (24413790 / 39601)"
    by (simp add: sum_winning_def py_sum_def stopped_trade_def won_trade_def close_trade_def
        fgt_def)
  have l: "sum_losing exact_arith [stopped_trade, won_trade] = Fin (- (5700 / 199))"
    by (simp add: sum_losing_def py_sum_def stopped_trade_def won_trade_def close_trade_def)
  have f: "\<lfloor>(24413790 / 1134300 :: real) * 100\<rfloor> = 2152" by (simp add: floor_eq_iff)
  have r: "py_round2 (24413790 / 1134300) = 2152 / 100"
    unfolding py_round2_def Let_def f by simp
  have q: "d_div exact_arith (Fin (24413790 / 39601)) (fabs (Fin (- (5700 / 199))))
      = Fin (24413790 / 1134300)"
    by simp
  have n: "fne (Fin (- (5700 / 199))) (Fin 0)" by (simp add: fne_def)
  have "profit_factor exact_arith [stopped_trade, won_trade]
      = d_round2 exact_arith (Fin (24413790 / 1134300))"
    unfolding profit_factor_def w l q using n by (simp only: if_True)
  also have "\<dots> = Fin (py_round2 (24413790 / 1134300))"
    unfolding exact_arith_def by (simp only: arith.simps fround2.simps)
  finally show ?thesis unfolding r .
qed

theorem profit_factor_rounded_quotient_witness:
  "run_profit_factor exact_arith exact_bollinger series_two_trades 1000 = Inr (Fin (2152 / 100))
   \<and> run_profit_factor exact_arith exact_bollinger series_entry_last 1000 = Inr (Fin 0)
   \<and> (\<exists>e. run_profit_factor exact_arith exact_bollinger (replicate 80 (flat_candle 100)) 1000
          = Inl e)"
proof -
  have len1: "length series_entry_last = 81" by (simp add: series_entry_last_def)
  have len2: "length series_two_trades = 84" by (simp add: series_two_trades_def)
  have a: "run_profit_factor exact_arith exact_bollinger series_two_trades 1000
      = Inr (Fin (2152 / 100))"
    using profit_factor_rounded_quotient
      [of series_two_trades exact_arith exact_bollinger 1000]
    by (simp add: run_series_two_trades won_state_def profit_factor_two_trades len2)
  have b1: "run_profit_factor exact_arith exact_bollinger series_entry_last 1000
      = Inr (profit_factor exact_arith
          (trades (run_trading exact_arith exact_bollinger series_entry_last 1000)))"
    using profit_factor_rounded_quotient
      [of series_entry_last exact_arith exact_bollinger 1000]
    by (simp add: len1)
  have b: "run_profit_factor exact_arith exact_bollinger series_entry_last 1000 = Inr (Fin 0)"
    using profit_factor_rounded_quotient
      [of series_entry_last exact_arith exact_bollinger 1000
        "profit_factor exact_arith
          (trades (run_trading exact_arith exact_bollinger series_entry_last 1000))"] b1
    by (simp add: run_series_entry_last close_trade_def)
  have c: "\<exists>e. run_profit_factor exact_arith exact_bollinger
      (replicate 80 (flat_candle 100)) 1000 = Inl e"
    using profit_factor_rounded_quotient
      [of "replicate 80 (flat_candle 100)" exact_arith exact_bollinger 1000]
    by simp
  from a b c show ?thesis by blast
qed

subsection \<open>The exit conditions of a held position\<close>

text \<open>Claim C1. While a position is held, each candle closes it for at most one
  reason, tried in a fixed order: the stop loss if close <= stop loss; otherwise the
  take profit if close >= maximal profit target; otherwise the trailing stop if
  close <= highest price since entry * 0.985 and that highest price exceeds entry
  price * 1.02; when none holds the position stays open (with the highest price
  updated) and the ledger is unchanged. The two products are the doubles the code
  computes and the comparisons are those of doubles, so the statement holds for
  every arithmetic \<open>ar\<close>, whatever it rounds to.\<close>

theorem exit_priority_order:
  assumes "cur_position s = Some pos" and "trades s \<noteq> []" and "i < length d"
  shows
   "let c = Fin (close (d ! i));
        si = set_trailing_stop strat (p_entry_price pos);
        h = py_max (p_highest_price pos) c;
        trailing = d_mul ar h (d_lit ar 0.985);
        armed = d_mul ar (p_entry_price pos) (d_lit ar 1.02);
        s' = bt_step ar strat d i s
    in (fle c (stop_loss si) \<longrightarrow>
          cur_position s' = None \<and> t_close_reason (last (trades s')) = Some Stop_loss)
     \<and> (\<not> fle c (stop_loss si) \<and> fge c (max_profit_target si) \<longrightarrow>
          cur_position s' = None \<and> t_close_reason (last (trades s')) = Some Max_take_profit)
     \<and> (\<not> fle c (stop_loss si) \<and> \<not> fge c (max_profit_target si)
          \<and> fle c trailing \<and> fgt h armed \<longrightarrow>
          cur_position s' = None \<and> t_close_reason (last (trades s')) = Some Trailing_stop)
     \<and> (\<not> fle c (stop_loss si) \<and> \<not> fge c (max_profit_target si)
          \<and> \<not> (fle c trailing \<and> fgt h armed) \<longrightarrow>
          cur_position s' = Some (pos\<lparr>p_highest_price := h\<rparr>) \<and> trades s' = trades s)"
  using assms
  by (simp add: bt_step_held last_take_Suc Let_def manage_position_def close_decision_def
      update_last_def close_trade_def)

text \<open>From the scenario state (entry 100, highest 150) in exact arithmetic, where the
  stop loss is 97 and the target 300: a close of 96 is a stop loss, 310 a take
  profit, 147 a trailing stop (147 <= 147.75 and 150 > 102), and at 149 the position
  stays open.\<close>

theorem exit_priority_order_witness:
  "t_close_reason
     (last (trades (bt_step exact_arith exact_bollinger [flat_candle 96] 0 scenario_state)))
     = Some Stop_loss
   \<and> t_close_reason
     (last (trades (bt_step exact_arith exact_bollinger [flat_candle 310] 0 scenario_state)))
     = Some Max_take_profit
   \<and> t_close_reason
     (last (trades (bt_step exact_arith exact_bollinger [flat_candle 147] 0 scenario_state)))
     = Some Trailing_stop
   \<and> cur_position (bt_step exact_arith exact_bollinger [flat_candle 149] 0 scenario_state)
     = Some scenario_position"
proof -
  have p: "cur_position scenario_state = Some scenario_position"
    and t: "trades scenario_state \<noteq> []"
    by (simp_all add: scenario_state_def)
  have a: "t_close_reason (last (trades (bt_step exact_arith exact_bollinger
      [flat_candle 96] 0 scenario_state))) = Some Stop_loss"
    using exit_priority_order [OF p t, of 0 "[flat_candle 96]" exact_bollinger exact_arith]
    by (simp add: Let_def scenario_position_def exact_bollinger_def bollinger_strategy_def
        bollinger_set_trailing_stop_def flat_candle_def mk_candle_def py_max_def fgt_def
        fge_def)
  have b: "t_close_reason (last (trades (bt_step exact_arith exact_bollinger
      [flat_candle 310] 0 scenario_state))) = Some Max_take_profit"
    using exit_priority_order [OF p t, of 0 "[flat_candle 310]" exact_bollinger exact_arith]
    by (simp add: Let_def scenario_position_def exact_bollinger_def bollinger_strategy_def
        bollinger_set_trailing_stop_def flat_candle_def mk_candle_def py_max_def fgt_def
        fge_def)
  have c: "t_close_reason (last (trades (bt_step exact_arith exact_bollinger
      [flat_candle 147] 0 scenario_state))) = Some Trailing_stop"
    using exit_priority_order [OF p t, of 0 "[flat_candle 147]" exact_bollinger exact_arith]
    by (simp add: Let_def scenario_position_def exact_bollinger_def bollinger_strategy_def
        bollinger_set_trailing_stop_def flat_candle_def mk_candle_def py_max_def fgt_def
        fge_def)
  have d: "cur_position (bt_step exact_arith exact_bollinger [flat_candle 149] 0
      scenario_state) = Some scenario_position"
    using exit_priority_order [OF p t, of 0 "[flat_candle 149]" exact_bollinger exact_arith]
    by (simp add: Let_def scenario_position_def exact_bollinger_def bollinger_strategy_def
        bollinger_set_trailing_stop_def flat_candle_def mk_candle_def py_max_def fgt_def
        fge_def)
  from a b c d show ?thesis by simp
qed

subsection \<open>Realized profit and loss\<close>

lemma in_rangeI: "1 / 2 ^ 20 \<le> x \<Longrightarrow> x \<le> 2 ^ 53 \<Longrightarrow> in_range x"
  unfolding in_range_def by (intro conjI disjI2) (simp_all add: abs_if)

lemma near_Ints: "near r x \<Longrightarrow> x \<in> \<int> \<Longrightarrow> r = x"
  by (simp add: near_def)

lemma near_pos_bounds:
  assumes "near r x" and "0 < x"
  shows "x * (9999 / 10000) \<le> r" and "r \<le> x * (10001 / 10000)"
proof -
  from assms have a: "\<bar>r - x\<bar> \<le> x / 2 ^ 53" by (simp add: near_def)
  from assms(2) have "x / 2 ^ 53 \<le> x / 10000" by (intro divide_left_mono) simp_all
  with a have "\<bar>r - x\<bar> \<le> x / 10000" by linarith
  then show "x * (9999 / 10000) \<le> r" and "r \<le> x * (10001 / 10000)" by linarith+
qed

text \<open>A product of a price between 1 and 1000 and a literal between 1/2 and 2 is
  finite and within a thousandth of the exact product.\<close>

lemma ieee_mul_lit:
  assumes "ieee_like ar" and "1 \<le> a" and "a \<le> 1000" and "1 / 2 \<le> x" and "x \<le> 2"
  obtains r where "d_mul ar (Fin a) (d_lit ar x) = Fin r"
    and "a * x * (999 / 1000) \<le> r" and "r \<le> a * x * (1001 / 1000)"
proof -
  have "(1 :: real) / 2 ^ 20 \<le> 1 / 2" by simp
  with assms(4) have "1 / 2 ^ 20 \<le> x" by linarith
  moreover from assms(5) have "x \<le> 2 ^ 53" by simp
  ultimately have "in_range x" by (rule in_rangeI)
  with assms(1) obtain l where l: "d_lit ar x = Fin l" "near l x" by (rule ieee_lit)
  from assms(4) have xp: "0 < x" by simp
  note lb = near_pos_bounds [OF l(2) xp]
  from assms(2) have a0: "0 \<le> a" by simp
  define P where "P = a * x"
  have Pl: "1 / 2 \<le> P"
    using mult_mono [of 1 a "1 / 2" x] assms(2,4) a0 by (simp add: P_def)
  have Pu: "P \<le> 2000"
    using mult_mono [of a 1000 x 2] assms(3,5) a0 xp by (simp add: P_def)
  have al1: "P * (9999 / 10000) \<le> a * l"
    using mult_left_mono [OF lb(1) a0] by (simp add: P_def algebra_simps)
  have al2: "a * l \<le> P * (10001 / 10000)"
    using mult_left_mono [OF lb(2) a0] by (simp add: P_def algebra_simps)
  have "(1 :: real) / 2 ^ 20 \<le> 1 / 4" by simp
  with al1 Pl have r1: "1 / 2 ^ 20 \<le> a * l" by linarith
  have "(2001 :: real) \<le> 2 ^ 53" by simp
  with al2 Pu have r2: "a * l \<le> 2 ^ 53" by linarith
  from r1 r2 have "in_range (a * l)" by (rule in_rangeI)
  with assms(1) obtain r where r: "d_mul ar (Fin a) (Fin l) = Fin r" "near r (a * l)"
    by (rule ieee_mul)
  from al1 Pl have alp: "0 < a * l" by linarith
  note rb = near_pos_bounds [OF r(2) alp]
  from rb(1) al1 Pl have "P * (999 / 1000) \<le> r" by linarith
  moreover from rb(2) al2 Pl have "r \<le> P * (1001 / 1000)" by linarith
  ultimately show ?thesis using that [of r] r(1) l(1) by (simp add: P_def)
qed

text \<open>Operations with an integer result of moderate size are exact.\<close>

lemma ieee_lit_exact:
  assumes "ieee_like ar" and "in_range x" and "x \<in> \<int>"
  shows "d_lit ar x = Fin x"
  using ieee_lit [OF assms(1,2)] near_Ints [OF _ assms(3)] by metis

lemma ieee_add_exact:
  assumes "ieee_like ar" and "in_range (a + b)" and "a + b \<in> \<int>"
  shows "d_add ar (Fin a) (Fin b) = Fin (a + b)"
  using ieee_add [OF assms(1,2)] near_Ints [OF _ assms(3)] by metis

lemma ieee_sub_exact:
  assumes "ieee_like ar" and "in_range (a - b)" and "a - b \<in> \<int>"
  shows "d_sub ar (Fin a) (Fin b) = Fin (a - b)"
  using ieee_sub [OF assms(1,2)] near_Ints [OF _ assms(3)] by metis

lemma ieee_mul_exact:
  assumes "ieee_like ar" and "in_range (a * b)" and "a * b \<in> \<int>"
  shows "d_mul ar (Fin a) (Fin b) = Fin (a * b)"
  using ieee_mul [OF assms(1,2)] near_Ints [OF _ assms(3)] by metis

lemma ieee_div_exact:
  assumes "ieee_like ar" and "b \<noteq> 0" and "in_range (a / b)" and "a / b \<in> \<int>"
  shows "d_div ar (Fin a) (Fin b) = Fin (a / b)"
  using ieee_div [OF assms(1,2,3)] near_Ints [OF _ assms(4)] by metis

lemma in_range_numeral: "numeral n \<le> (2 :: real) ^ 53 \<Longrightarrow> in_range (numeral n)"
  by (rule in_rangeI) (simp_all add: divide_le_eq)

lemma in_range_neg: "in_range (- x) = in_range x"
  by (simp add: in_range_def)

text \<open>The scenario of claim C2 in any arithmetic that rounds as doubles do: the stop
  loss is about 97, the target is 300, the trailing threshold about 147.75 and the
  arming level about 102; the pnl (147 - 100) * 1000 / 100 has integer intermediate
  results and is exactly 470.\<close>

lemma scenario_trailing_stop:
  assumes "ieee_like ar"
  shows "bt_step ar (bollinger_strategy ar) [flat_candle 147] 0 scenario_state
      = \<lparr>current_capital = Fin 5470, cur_position = None,
         trades = [close_trade ar (Fin 470) 0 (Fin 147) Trailing_stop (Fin 150) (Fin 100)
                     scenario_trade],
         equity_curve = [(0, Fin 5470)]\<rparr>"
proof -
  obtain m where m: "d_mul ar (Fin 100) (d_lit ar (97 / 100)) = Fin m" "m \<le> 98"
  proof -
    from assms obtain r where "d_mul ar (Fin 100) (d_lit ar (97 / 100)) = Fin r"
      "r \<le> 100 * (97 / 100) * (1001 / 1000)"
      by (rule ieee_mul_lit [where a = 100 and x = "97 / 100"]) simp_all
    then show ?thesis using that [of r] by simp
  qed
  obtain t where t: "d_mul ar (Fin 150) (d_lit ar (197 / 200)) = Fin t" "147 \<le> t"
  proof -
    from assms obtain r where "d_mul ar (Fin 150) (d_lit ar (197 / 200)) = Fin r"
      "150 * (197 / 200) * (999 / 1000) \<le> r"
      by (rule ieee_mul_lit [where a = 150 and x = "197 / 200"]) simp_all
    then show ?thesis using that [of r] by simp
  qed
  obtain g where g: "d_mul ar (Fin 100) (d_lit ar (51 / 50)) = Fin g" "g \<le> 103"
  proof -
    from assms obtain r where "d_mul ar (Fin 100) (d_lit ar (51 / 50)) = Fin r"
      "r \<le> 100 * (51 / 50) * (1001 / 1000)"
      by (rule ieee_mul_lit [where a = 100 and x = "51 / 50"]) simp_all
    then show ?thesis using that [of r] by simp
  qed
  have l3: "d_lit ar 3 = Fin 3"
    using ieee_lit_exact [OF assms, of 3] by (simp add: in_range_numeral)
  have tg: "d_mul ar (Fin 100) (Fin 3) = Fin 300"
    using ieee_mul_exact [OF assms, of 100 3] by (simp add: in_range_numeral)
  have sb: "d_sub ar (Fin 147) (Fin 100) = Fin 47"
    using ieee_sub_exact [OF assms, of 147 100] by (simp add: in_range_numeral)
  have ml: "d_mul ar (Fin 47) (Fin 1000) = Fin 47000"
    using ieee_mul_exact [OF assms, of 47 1000] by (simp add: in_range_numeral)
  have dv: "d_div ar (Fin 47000) (Fin 100) = Fin 470"
    using ieee_div_exact [OF assms, of 100 47000] by (simp add: in_range_numeral)
  have ad: "d_add ar (Fin 5000) (Fin 470) = Fin 5470"
    using ieee_add_exact [OF assms, of 5000 470] by (simp add: in_range_numeral)
  show ?thesis
    using m(2) t(2) g(2)
    by (simp add: bt_step_def manage_position_def Let_def scenario_state_def
        scenario_position_def bollinger_strategy_def bollinger_set_trailing_stop_def
        close_decision_def update_last_def flat_candle_def mk_candle_def py_max_def
        fgt_def fge_def m(1) t(1) g(1) l3 tg sb ml dv ad)
qed

text \<open>\<open>calculate_pnl\<close> on the scenario's prices with a size of 10 units.\<close>

lemma calculate_pnl_units:
  assumes "ieee_like ar"
  shows "calculate_pnl ar (Fin 100) (Fin 147) (Fin 10) ''long'' = Fin 470"
    and "calculate_pnl ar (Fin 100) (Fin 147) (Fin 10) ''short'' = Fin (- 470)"
proof -
  have a: "d_sub ar (Fin 147) (Fin 100) = Fin 47"
    using ieee_sub_exact [OF assms, of 147 100] by (simp add: in_range_numeral)
  have b: "d_mul ar (Fin 47) (Fin 10) = Fin 470"
    using ieee_mul_exact [OF assms, of 47 10] by (simp add: in_range_numeral)
  have c: "d_sub ar (Fin 100) (Fin 147) = Fin (- 47)"
    using ieee_sub_exact [OF assms, of 100 147]
    by (simp add: in_range_numeral in_range_neg)
  have d: "d_mul ar (Fin (- 47)) (Fin 10) = Fin (- 470)"
    using ieee_mul_exact [OF assms, of "- 47" 10]
    by (simp add: in_range_numeral in_range_neg)
  show "calculate_pnl ar (Fin 100) (Fin 147) (Fin 10) ''long'' = Fin 470"
    by (simp add: calculate_pnl_def a b)
  show "calculate_pnl ar (Fin 100) (Fin 147) (Fin 10) ''short'' = Fin (- 470)"
    by (simp add: calculate_pnl_def c d)
qed

lemma calculate_pnl_short_negates:
  assumes "ieee_like ar" and "in_range (c - e)"
  shows "calculate_pnl ar (Fin e) (Fin c) (Fin sz) ''short''
      = fneg (calculate_pnl ar (Fin e) (Fin c) (Fin sz) ''long'')"
proof -
  from assms obtain r where r: "d_sub ar (Fin c) (Fin e) = Fin r" by (rule ieee_sub)
  from assms(1) have "d_sub ar (Fin e) (Fin c) = fneg (d_sub ar (Fin c) (Fin e))"
    unfolding ieee_like_def by blast
  with r have s: "d_sub ar (Fin e) (Fin c) = Fin (- r)" by simp
  from assms(1) have "d_mul ar (Fin (- r)) (Fin sz) = fneg (d_mul ar (Fin r) (Fin sz))"
    unfolding ieee_like_def by blast
  with r s show ?thesis by (simp add: calculate_pnl_def)
qed

lemma loop_position_long:
  assumes "80 \<le> n" and "n \<le> length d"
    and "cur_position (bt_loop ar strat d n (bt_init cap)) = Some p"
  shows "p_direction p = ''LONG''"
  using bt_loop_inv [OF assms(1,2), of ar strat cap] assms(3)
  by (simp add: loop_inv_def held_trade_def)

text \<open>Claim C2. Whenever the backtest loop closes its position, on an exit condition
  or at the end of the data, the realized pnl is (close - entry) * size / entry,
  computed in doubles in this order, and the capital grows by it; the size is the
  notional capital * 0.3 of the entry. Every position the loop opens or holds is
  long, so the short case never arises in a run. In every arithmetic that rounds as
  doubles do, a position entered at 100 with size 1000 and highest price 150 that
  sees a close of 147 is closed by the trailing stop with a pnl of exactly 470. The
  direction-aware helper \<open>calculate_pnl\<close> returns for a short position the negation of
  what it returns for a long one.\<close>

theorem realized_pnl_notional:
  "(cur_position s = Some pos \<and> trades s \<noteq> [] \<and> i < length d
      \<and> cur_position (bt_step ar strat d i s) = None \<longrightarrow>
        t_pnl (last (trades (bt_step ar strat d i s)))
          = d_div ar (d_mul ar (d_sub ar (Fin (close (d ! i))) (p_entry_price pos))
                        (p_size pos)) (p_entry_price pos)
        \<and> current_capital (bt_step ar strat d i s)
          = d_add ar (current_capital s)
              (d_div ar (d_mul ar (d_sub ar (Fin (close (d ! i))) (p_entry_price pos))
                           (p_size pos)) (p_entry_price pos)))
   \<and> (cur_position s = Some pos \<and> trades s \<noteq> [] \<longrightarrow>
        t_pnl (last (trades (close_at_end ar d s)))
          = d_div ar (d_mul ar (d_sub ar (Fin (close (last d))) (p_entry_price pos))
                        (p_size pos)) (p_entry_price pos)
        \<and> current_capital (close_at_end ar d s)
          = d_add ar (current_capital s)
              (d_div ar (d_mul ar (d_sub ar (Fin (close (last d))) (p_entry_price pos))
                           (p_size pos)) (p_entry_price pos)))
   \<and> (cur_position s = None \<and> check_entry_signal strat (take (i + 1) d) \<longrightarrow>
        (\<exists>p. cur_position (bt_step ar strat d i s) = Some p \<and> p_direction p = ''LONG''
           \<and> p_size p = d_mul ar (current_capital s) (get_position_size_ratio strat)))
   \<and> (80 \<le> n \<and> n \<le> length d
        \<and> cur_position (bt_loop ar strat d n (bt_init cap)) = Some q \<longrightarrow>
        p_direction q = ''LONG'')
   \<and> (ieee_like ar \<longrightarrow>
        t_close_reason
          (last (trades (bt_step ar (bollinger_strategy ar) [flat_candle 147] 0
             scenario_state))) = Some Trailing_stop
        \<and> t_pnl (last (trades (bt_step ar (bollinger_strategy ar) [flat_candle 147] 0
             scenario_state))) = Fin 470)
   \<and> (ieee_like ar \<and> in_range (c - e) \<longrightarrow>
        calculate_pnl ar (Fin e) (Fin c) (Fin sz) ''short''
          = fneg (calculate_pnl ar (Fin e) (Fin c) (Fin sz) ''long''))
   \<and> (ieee_like ar \<longrightarrow>
        calculate_pnl ar (Fin 100) (Fin 147) (Fin 10) ''long'' = Fin 470
        \<and> calculate_pnl ar (Fin 100) (Fin 147) (Fin 10) ''short'' = Fin (- 470))"
proof -
  have a: "cur_position s = Some pos \<and> trades s \<noteq> [] \<and> i < length d
      \<and> cur_position (bt_step ar strat d i s) = None \<longrightarrow>
        t_pnl (last (trades (bt_step ar strat d i s)))
          = d_div ar (d_mul ar (d_sub ar (Fin (close (d ! i))) (p_entry_price pos))
                        (p_size pos)) (p_entry_price pos)
        \<and> current_capital (bt_step ar strat d i s)
          = d_add ar (current_capital s)
              (d_div ar (d_mul ar (d_sub ar (Fin (close (d ! i))) (p_entry_price pos))
                           (p_size pos)) (p_entry_price pos))"
    by (auto simp: bt_step_held last_take_Suc Let_def manage_position_def update_last_def
        close_trade_def split: option.splits)
  have b: "cur_position s = Some pos \<and> trades s \<noteq> [] \<longrightarrow>
        t_pnl (last (trades (close_at_end ar d s)))
          = d_div ar (d_mul ar (d_sub ar (Fin (close (last d))) (p_entry_price pos))
                        (p_size pos)) (p_entry_price pos)
        \<and> current_capital (close_at_end ar d s)
          = d_add ar (current_capital s)
              (d_div ar (d_mul ar (d_sub ar (Fin (close (last d))) (p_entry_price pos))
                           (p_size pos)) (p_entry_price pos))"
    by (auto simp: close_at_end_def Let_def update_last_def close_trade_def)
  have c: "cur_position s = None \<and> check_entry_signal strat (take (i + 1) d) \<longrightarrow>
        (\<exists>p. cur_position (bt_step ar strat d i s) = Some p \<and> p_direction p = ''LONG''
           \<and> p_size p = d_mul ar (current_capital s) (get_position_size_ratio strat))"
    by (auto simp: bt_step_entry open_position_def Let_def)
  have l: "80 \<le> n \<and> n \<le> length d
        \<and> cur_position (bt_loop ar strat d n (bt_init cap)) = Some q \<longrightarrow>
        p_direction q = ''LONG''"
    using loop_position_long by blast
  have sc: "ieee_like ar \<longrightarrow>
        t_close_reason
          (last (trades (bt_step ar (bollinger_strategy ar) [flat_candle 147] 0
             scenario_state))) = Some Trailing_stop
        \<and> t_pnl (last (trades (bt_step ar (bollinger_strategy ar) [flat_candle 147] 0
             scenario_state))) = Fin 470"
    by (simp add: scenario_trailing_stop close_trade_def)
  have f: "ieee_like ar \<and> in_range (c - e) \<longrightarrow>
        calculate_pnl ar (Fin e) (Fin c) (Fin sz) ''short''
          = fneg (calculate_pnl ar (Fin e) (Fin c) (Fin sz) ''long'')"
    using calculate_pnl_short_negates by blast
  have g: "ieee_like ar \<longrightarrow>
        calculate_pnl ar (Fin 100) (Fin 147) (Fin 10) ''long'' = Fin 470
        \<and> calculate_pnl ar (Fin 100) (Fin 147) (Fin 10) ''short'' = Fin (- 470)"
    using calculate_pnl_units by blast
  from a b c l sc f g show ?thesis by blast
qed

text \<open>In exact arithmetic: the stopped run realizes (90 - 99.5) * 300 / 99.5 at the
  stop loss, the run that ends on its entry candle realizes
  (100 - 99.5) * 300 / 99.5 at the end of the data, the position entered is long
  with size 0.3 * 1000, the scenario closes at the trailing stop with 470, and
  \<open>calculate_pnl\<close> on 10 units gives 470 and -470.\<close>

theorem realized_pnl_notional_witness:
  "t_pnl (last (trades (bt_step exact_arith exact_bollinger series_stopped 81 entered_state)))
     = Fin ((90 - 995 / 10) * 300 / (995 / 10))
   \<and> t_pnl (last (trades (close_at_end exact_arith series_entry_last entered_state)))
     = Fin ((100 - 995 / 10) * 300 / (995 / 10))
   \<and> (\<exists>p. cur_position (bt_step exact_arith exact_bollinger series_entry_last 80
               (bt_init 1000)) = Some p
        \<and> p_direction p = ''LONG'' \<and> p_size p = Fin 300)
   \<and> cur_position (bt_loop exact_arith exact_bollinger series_entry_last 81 (bt_init 1000))
       = Some entry_position
   \<and> p_direction entry_position = ''LONG''
   \<and> t_close_reason
       (last (trades (bt_step exact_arith exact_bollinger [flat_candle 147] 0
          scenario_state))) = Some Trailing_stop
   \<and> t_pnl (last (trades (bt_step exact_arith exact_bollinger [flat_candle 147] 0
          scenario_state))) = Fin 470
   \<and> calculate_pnl exact_arith (Fin 100) (Fin 147) (Fin 1000) ''short''
       = fneg (calculate_pnl exact_arith (Fin 100) (Fin 147) (Fin 1000) ''long'')
   \<and> calculate_pnl exact_arith (Fin 100) (Fin 147) (Fin 10) ''long'' = Fin 470
   \<and> calculate_pnl exact_arith (Fin 100) (Fin 147) (Fin 10) ''short'' = Fin (- 470)"
proof -
  have p: "cur_position entered_state = Some entry_position"
    and t: "trades entered_state \<noteq> []"
    by (simp_all add: entered_state_def)
  have len: "length series_stopped = 82" by (simp add: series_stopped_def)
  have len1: "length series_entry_last = 81" by (simp add: series_entry_last_def)
  have nth: "series_stopped ! 81 = mk_candle 81 100 100 90 90"
    by (simp add: series_stopped_def nth_append)
  have st: "bt_step exact_arith exact_bollinger series_stopped 81 entered_state
      = stopped_state"
    by (rule step_81_stops) (simp_all add: len nth)
  have a: "t_pnl (last (trades (bt_step exact_arith exact_bollinger series_stopped 81
      entered_state))) = Fin ((90 - 995 / 10) * 300 / (995 / 10))"
    using realized_pnl_notional [where s = entered_state and pos = entry_position
        and i = 81 and d = series_stopped and ar = exact_arith and strat = exact_bollinger]
      p t len
    by (simp add: st stopped_state_def nth mk_candle_def entry_position_def)
  have b: "t_pnl (last (trades (close_at_end exact_arith series_entry_last entered_state)))
     = Fin ((100 - 995 / 10) * 300 / (995 / 10))"
    using realized_pnl_notional [where s = entered_state and pos = entry_position
        and d = series_entry_last and ar = exact_arith] p t
    by (simp add: series_entry_last_def breakout_candle_def mk_candle_def
        entry_position_def)
  have none: "cur_position (bt_init 1000) = None"
    and cap: "current_capital (bt_init 1000) = Fin 1000"
    by (simp_all add: bt_init_def)
  have tk: "take 81 series_entry_last = series_entry_last"
    by (simp add: series_entry_last_def)
  have sig: "check_entry_signal exact_bollinger series_entry_last"
    by (simp add: exact_bollinger_def bollinger_strategy_def signal_series_entry_last)
  have ratio: "fmul (Fin 1000) (get_position_size_ratio exact_bollinger) = Fin 300"
    by (simp add: exact_bollinger_def bollinger_strategy_def
        bollinger_get_position_size_ratio_def)
  have c: "\<exists>p. cur_position (bt_step exact_arith exact_bollinger series_entry_last 80
        (bt_init 1000)) = Some p \<and> p_direction p = ''LONG'' \<and> p_size p = Fin 300"
    using realized_pnl_notional [where s = "bt_init 1000" and i = 80
        and d = series_entry_last and ar = exact_arith and strat = exact_bollinger]
      none sig
    by (simp add: tk cap ratio)
  have lp: "cur_position (bt_loop exact_arith exact_bollinger series_entry_last 81
      (bt_init 1000)) = Some entry_position"
    by (simp add: loop_series_entry_last entered_state_def)
  have l: "p_direction entry_position = ''LONG''"
    using realized_pnl_notional [where n = 81 and d = series_entry_last
        and ar = exact_arith and strat = exact_bollinger and cap = 1000
        and q = entry_position] lp len1
    by simp
  have sc: "t_close_reason
       (last (trades (bt_step exact_arith exact_bollinger [flat_candle 147] 0
          scenario_state))) = Some Trailing_stop
     \<and> t_pnl (last (trades (bt_step exact_arith exact_bollinger [flat_candle 147] 0
          scenario_state))) = Fin 470"
    using realized_pnl_notional [where ar = exact_arith] ieee_like_exact_arith
    unfolding exact_bollinger_def by blast
  have r: "in_range (147 - 100)" by (simp add: in_range_numeral)
  have f: "calculate_pnl exact_arith (Fin 100) (Fin 147) (Fin 1000) ''short''
       = fneg (calculate_pnl exact_arith (Fin 100) (Fin 147) (Fin 1000) ''long'')"
    using realized_pnl_notional [where ar = exact_arith and c = 147 and e = 100
        and sz = 1000] ieee_like_exact_arith r
    by blast
  have g: "calculate_pnl exact_arith (Fin 100) (Fin 147) (Fin 10) ''long'' = Fin 470
     \<and> calculate_pnl exact_arith (Fin 100) (Fin 147) (Fin 10) ''short'' = Fin (- 470)"
    using realized_pnl_notional [where ar = exact_arith] ieee_like_exact_arith
    by blast
  from a b c lp l sc f g show ?thesis by blast
qed

subsection \<open>One position at a time\<close>

lemma loop_inv_any:
  assumes "n \<le> length d"
  shows "loop_inv d (max 80 n) (bt_loop ar strat d n (bt_init cap))"
proof (cases "80 \<le> n")
  case True
  then show ?thesis using bt_loop_inv [OF True assms] by (simp add: max_def)
next
  case False
  then show ?thesis by (simp add: bt_loop_base loop_inv_init max_def)
qed

lemma exit_closed_not_open: "exit_closed d n t \<Longrightarrow> \<not> trade_open t"
  by (auto simp: exit_closed_def trade_open_def)

lemma filter_open_closed:
  "list_all (exit_closed d n) xs \<Longrightarrow> filter trade_open xs = []"
  by (induction xs) (auto dest: exit_closed_not_open)

lemma loop_inv_open_count:
  assumes "loop_inv d n s"
  shows "length (filter trade_open (trades s)) = (if cur_position s = None then 0 else 1)"
proof (cases "cur_position s")
  case None
  with assms show ?thesis by (auto simp: loop_inv_def intro: filter_open_closed)
next
  case (Some pos)
  with assms have ne: "trades s \<noteq> []"
    and all: "list_all (exit_closed d n) (butlast (trades s))"
    and held: "trade_open (last (trades s))"
    by (auto simp: loop_inv_def held_trade_def)
  have "filter trade_open (trades s)
      = filter trade_open (butlast (trades s)) @ filter trade_open [last (trades s)]"
    using ne by (metis append_butlast_last_id filter_append)
  with filter_open_closed [OF all] held Some show ?thesis by simp
qed

lemma bt_step_held_any_signal:
  assumes "cur_position s = Some pos"
  shows "bt_step ar (strat\<lparr>check_entry_signal := f\<rparr>) d i s = bt_step ar strat d i s"
  by (simp add: bt_step_held [OF assms] manage_position_def Let_def)

lemma bt_step_held_length:
  assumes "cur_position s = Some pos"
  shows "length (trades (bt_step ar strat d i s)) = length (trades s)"
  by (simp add: bt_step_held [OF assms] manage_position_def Let_def update_last_def
      split: option.splits)

text \<open>The ledger of a run, from the state the loop ends in.\<close>

lemma run_trades_flat:
  assumes "cur_position (bt_loop ar strat d (length d) (bt_init cap)) = None"
  shows "trades (run_trading ar strat d cap) = trades (bt_loop ar strat d (length d) (bt_init cap))"
  using assms by (simp add: run_trading_def close_at_end_def)

lemma run_trades_held:
  assumes "cur_position (bt_loop ar strat d (length d) (bt_init cap)) = Some pos"
  shows "trades (run_trading ar strat d cap)
     = butlast (trades (bt_loop ar strat d (length d) (bt_init cap)))
       @ [close_trade ar
            (d_div ar (d_mul ar (d_sub ar (Fin (close (last d))) (p_entry_price pos))
                         (p_size pos)) (p_entry_price pos))
            (ts (last d)) (Fin (close (last d))) Backtest_end (p_highest_price pos)
            (p_entry_price pos)
            (last (trades (bt_loop ar strat d (length d) (bt_init cap))))]"
proof -
  have "loop_inv d (max 80 (length d)) (bt_loop ar strat d (length d) (bt_init cap))"
    by (rule loop_inv_any) simp
  with assms have "trades (bt_loop ar strat d (length d) (bt_init cap)) \<noteq> []"
    by (simp add: loop_inv_def)
  with assms show ?thesis
    by (simp add: run_trading_def close_at_end_def Let_def update_last_def)
qed

lemma ts_nth_less:
  "sorted_wrt (<) (map ts d) \<Longrightarrow> a < b \<Longrightarrow> b < length d \<Longrightarrow> ts (d ! a) < ts (d ! b)"
  using sorted_wrt_nth_less [of "(<)" "map ts d" a b] by simp

lemma exit_closed_dates:
  assumes "exit_closed d n t" and "n \<le> length d" and "sorted_wrt (<) (map ts d)"
  shows "\<exists>cd r. t_close_date t = Some cd \<and> t_close_reason t = Some r
      \<and> r \<noteq> Backtest_end \<and> t_date t < cd"
proof -
  from assms(1) obtain a b where ab: "80 \<le> a" "a < b" "b < n"
    and t: "t_date t = ts (d ! a)" "t_close_date t = Some (ts (d ! b))"
    and r: "t_close_reason t \<in> {Some Stop_loss, Some Max_take_profit, Some Trailing_stop}"
    by (auto simp: exit_closed_def)
  from ab assms(2) have "ts (d ! a) < ts (d ! b)"
    by (intro ts_nth_less [OF assms(3)]) auto
  with t r show ?thesis by auto
qed

lemma sorted_series_stopped: "sorted_wrt (<) (map ts series_stopped)"
  by (simp add: series_stopped_def flat_prefix_def breakout_candle_def mk_candle_def
      sorted_wrt_append sorted_wrt_map o_def)

lemma sorted_series_entry_last: "sorted_wrt (<) (map ts series_entry_last)"
  by (simp add: series_entry_last_def flat_prefix_def breakout_candle_def mk_candle_def
      sorted_wrt_append sorted_wrt_map o_def)

text \<open>Claim C9. After any number of candles of a run at most one trade of the
  ledger is open, and one is open exactly when a position is held. While a position
  is held the step does not depend on the entry signal (replacing the signal
  function by any other gives the same state) and adds no trade: an entry is made
  only from the flat state. When the data ends with a position held, the run closes
  its trade at the close of the last candle, with the reason "end of backtest", and
  no trade of the finished run is open.\<close>

theorem single_open_position:
  assumes "n \<le> length d"
  shows
   "length (filter trade_open (trades (bt_loop ar strat d n (bt_init cap)))) \<le> 1
    \<and> (length (filter trade_open (trades (bt_loop ar strat d n (bt_init cap)))) = 1
         \<longleftrightarrow> cur_position (bt_loop ar strat d n (bt_init cap)) \<noteq> None)
    \<and> (cur_position (bt_loop ar strat d n (bt_init cap)) \<noteq> None \<longrightarrow>
         (\<forall>f. bt_step ar (strat\<lparr>check_entry_signal := f\<rparr>) d n (bt_loop ar strat d n (bt_init cap))
              = bt_step ar strat d n (bt_loop ar strat d n (bt_init cap)))
         \<and> length (trades (bt_step ar strat d n (bt_loop ar strat d n (bt_init cap))))
              = length (trades (bt_loop ar strat d n (bt_init cap))))
    \<and> filter trade_open (trades (run_trading ar strat d cap)) = []
    \<and> (cur_position (bt_loop ar strat d (length d) (bt_init cap)) \<noteq> None \<longrightarrow>
         t_close_date (last (trades (run_trading ar strat d cap))) = Some (ts (last d))
         \<and> t_close_price (last (trades (run_trading ar strat d cap))) = Some (Fin (close (last d)))
         \<and> t_close_reason (last (trades (run_trading ar strat d cap))) = Some Backtest_end)"
proof -
  let ?s = "bt_loop ar strat d n (bt_init cap)"
  let ?e = "bt_loop ar strat d (length d) (bt_init cap)"
  have inv: "loop_inv d (max 80 n) ?s" by (rule loop_inv_any [OF assms])
  have cnt: "length (filter trade_open (trades ?s)) = (if cur_position ?s = None then 0 else 1)"
    by (rule loop_inv_open_count [OF inv])
  have einv: "loop_inv d (max 80 (length d)) ?e" by (rule loop_inv_any) simp
  have fin: "filter trade_open (trades (run_trading ar strat d cap)) = []"
  proof (cases "cur_position ?e")
    case None
    with einv show ?thesis
      by (auto simp: run_trades_flat loop_inv_def intro: filter_open_closed)
  next
    case (Some pos)
    with einv have "list_all (exit_closed d (max 80 (length d))) (butlast (trades ?e))"
      by (simp add: loop_inv_def)
    from filter_open_closed [OF this] show ?thesis
      by (simp add: run_trades_held [OF Some] trade_open_def close_trade_def)
  qed
  have forced: "cur_position ?e \<noteq> None \<longrightarrow>
         t_close_date (last (trades (run_trading ar strat d cap))) = Some (ts (last d))
         \<and> t_close_price (last (trades (run_trading ar strat d cap))) = Some (Fin (close (last d)))
         \<and> t_close_reason (last (trades (run_trading ar strat d cap))) = Some Backtest_end"
    by (auto simp: run_trades_held close_trade_def)
  from cnt fin forced show ?thesis
    by (auto simp: bt_step_held_any_signal bt_step_held_length)
qed


text \<open>In the run that enters on its last candle, one trade is open after the loop
  and the run closes it at the last close, 100, with timestamp 80; in the stopped
  run, the step on candle 81 is the same under a signal that is always true.\<close>

theorem single_open_position_witness:
  "length (filter trade_open (trades (bt_loop exact_arith exact_bollinger series_entry_last 81
      (bt_init 1000)))) = 1
   \<and> bt_step exact_arith (exact_bollinger\<lparr>check_entry_signal := \<lambda>_. True\<rparr>) series_stopped 81
        (bt_loop exact_arith exact_bollinger series_stopped 81 (bt_init 1000))
      = bt_step exact_arith exact_bollinger series_stopped 81
        (bt_loop exact_arith exact_bollinger series_stopped 81 (bt_init 1000))
   \<and> filter trade_open (trades (run_trading exact_arith exact_bollinger series_entry_last 1000)) = []
   \<and> t_close_date (last (trades (run_trading exact_arith exact_bollinger series_entry_last 1000)))
      = Some 80
   \<and> t_close_price (last (trades (run_trading exact_arith exact_bollinger series_entry_last 1000)))
      = Some (Fin 100)
   \<and> t_close_reason (last (trades (run_trading exact_arith exact_bollinger series_entry_last 1000)))
      = Some Backtest_end"
proof -
  have l1: "length series_entry_last = 81" by (simp add: series_entry_last_def)
  have l2: "81 \<le> length series_stopped" by (simp add: series_stopped_def)
  have p: "cur_position entered_state \<noteq> None" by (simp add: entered_state_def)
  have last1: "last series_entry_last = breakout_candle"
    by (simp add: series_entry_last_def)
  have a: "length (filter trade_open (trades (bt_loop exact_arith exact_bollinger series_entry_last 81
      (bt_init 1000)))) = 1"
    and c: "filter trade_open (trades (run_trading exact_arith exact_bollinger series_entry_last 1000))
      = []"
    and d: "t_close_date (last (trades (run_trading exact_arith exact_bollinger series_entry_last 1000)))
      = Some 80"
    and e: "t_close_price (last (trades (run_trading exact_arith exact_bollinger series_entry_last 1000)))
      = Some (Fin 100)"
    and f: "t_close_reason (last (trades (run_trading exact_arith exact_bollinger series_entry_last 1000)))
      = Some Backtest_end"
    using single_open_position [where n = 81 and d = series_entry_last and ar = exact_arith
        and strat = exact_bollinger and cap = 1000] l1 p
    by (simp_all add: loop_series_entry_last last1 breakout_candle_def mk_candle_def)
  have b: "bt_step exact_arith (exact_bollinger\<lparr>check_entry_signal := \<lambda>_. True\<rparr>) series_stopped 81
        (bt_loop exact_arith exact_bollinger series_stopped 81 (bt_init 1000))
      = bt_step exact_arith exact_bollinger series_stopped 81
        (bt_loop exact_arith exact_bollinger series_stopped 81 (bt_init 1000))"
    using single_open_position [OF l2, where ar = exact_arith and strat = exact_bollinger
        and cap = 1000] p
    by (simp add: loop_series_stopped_81)
  from a b c d e f show ?thesis by simp
qed

subsection \<open>No exit on the entry candle\<close>

text \<open>Claim C10. The step that enters a position only appends an open trade and
  holds the position: whatever the stop plan and the prices, no exit condition is
  applied on the entry candle and the capital is unchanged. So, for a series with
  strictly increasing timestamps, every trade of a finished run that was closed by
  an exit condition was closed at a later timestamp than its entry; a trade whose
  close timestamp equals its entry timestamp was closed by the forced close at the
  end of the data, at the timestamp of the last candle.\<close>

theorem no_exit_on_entry_candle:
  "(cur_position s = None \<and> check_entry_signal strat (take (i + 1) d) \<and> i < length d \<longrightarrow>
      (\<exists>t. trades (bt_step ar strat d i s) = trades s @ [t] \<and> trade_open t
           \<and> t_date t = ts (d ! i) \<and> t_close_reason t = None)
      \<and> (\<exists>p. cur_position (bt_step ar strat d i s) = Some p \<and> p_entry_date p = ts (d ! i))
      \<and> current_capital (bt_step ar strat d i s) = current_capital s)
   \<and> (sorted_wrt (<) (map ts d) \<longrightarrow>
        (\<forall>t\<in>set (trades (run_trading ar strat d cap)).
           \<exists>cd r. t_close_date t = Some cd \<and> t_close_reason t = Some r
             \<and> (r \<noteq> Backtest_end \<longrightarrow> t_date t < cd)
             \<and> (r = Backtest_end \<longrightarrow> cd = ts (last d) \<and> t_date t \<le> cd)
             \<and> (cd = t_date t \<longrightarrow> r = Backtest_end)))"
proof -
  have entry: "cur_position s = None \<and> check_entry_signal strat (take (i + 1) d)
      \<and> i < length d \<longrightarrow>
      (\<exists>t. trades (bt_step ar strat d i s) = trades s @ [t] \<and> trade_open t
           \<and> t_date t = ts (d ! i) \<and> t_close_reason t = None)
      \<and> (\<exists>p. cur_position (bt_step ar strat d i s) = Some p \<and> p_entry_date p = ts (d ! i))
      \<and> current_capital (bt_step ar strat d i s) = current_capital s"
    by (auto simp: bt_step_entry open_position_def Let_def trade_open_def last_take_Suc)
  have run: "\<exists>cd r. t_close_date t = Some cd \<and> t_close_reason t = Some r
             \<and> (r \<noteq> Backtest_end \<longrightarrow> t_date t < cd)
             \<and> (r = Backtest_end \<longrightarrow> cd = ts (last d) \<and> t_date t \<le> cd)
             \<and> (cd = t_date t \<longrightarrow> r = Backtest_end)"
    if srt: "sorted_wrt (<) (map ts d)" and mem: "t \<in> set (trades (run_trading ar strat d cap))"
    for t
  proof -
    let ?e = "bt_loop ar strat d (length d) (bt_init cap)"
    let ?n = "max 80 (length d)"
    have einv: "loop_inv d ?n ?e" by (rule loop_inv_any) simp
    have closed: "\<exists>cd r. t_close_date u = Some cd \<and> t_close_reason u = Some r
        \<and> r \<noteq> Backtest_end \<and> t_date u < cd" if u: "exit_closed d ?n u" for u
    proof -
      from u have "80 < ?n" by (auto simp: exit_closed_def)
      then have "?n \<le> length d" by (simp add: max_def split: if_splits)
      from exit_closed_dates [OF u this srt] show ?thesis .
    qed
    show ?thesis
    proof (cases "cur_position ?e")
      case None
      with einv mem have "exit_closed d ?n t"
        by (auto simp: loop_inv_def run_trades_flat list_all_iff)
      from closed [OF this] show ?thesis by auto
    next
      case (Some pos)
      with einv have ne: "trades ?e \<noteq> []"
        and all: "list_all (exit_closed d ?n) (butlast (trades ?e))"
        and held: "held_trade d ?n pos (last (trades ?e))"
        by (auto simp: loop_inv_def)
      from mem consider (old) "t \<in> set (butlast (trades ?e))"
        | (new) "t = close_trade ar
            (d_div ar (d_mul ar (d_sub ar (Fin (close (last d))) (p_entry_price pos))
                         (p_size pos)) (p_entry_price pos))
            (ts (last d)) (Fin (close (last d))) Backtest_end (p_highest_price pos)
            (p_entry_price pos) (last (trades ?e))"
        by (auto simp: run_trades_held [OF Some])
      then show ?thesis
      proof cases
        case old
        with all have "exit_closed d ?n t" by (simp add: list_all_iff)
        from closed [OF this] show ?thesis by auto
      next
        case new
        from held obtain a where a: "80 \<le> a" "a < ?n"
          and da: "t_date (last (trades ?e)) = ts (d ! a)"
          by (auto simp: held_trade_def)
        from a have len: "a < length d" by (simp add: max_def split: if_splits)
        then have dne: "d \<noteq> []" by auto
        have lst: "last d = d ! (length d - 1)" using dne by (rule last_conv_nth)
        have "ts (d ! a) \<le> ts (last d)"
        proof (cases "a = length d - 1")
          case True
          then show ?thesis by (simp add: lst)
        next
          case False
          with len have "a < length d - 1" by simp
          from ts_nth_less [OF srt this] dne show ?thesis by (simp add: lst)
        qed
        with new da show ?thesis by (simp add: close_trade_def)
      qed
    qed
  qed
  from entry run show ?thesis by blast
qed


text \<open>The run on \<open>series_entry_last\<close> enters at candle 80, its last: the trade is
  open after the step and the forced close gives it close timestamp 80, equal to its
  entry. The run on \<open>series_stopped\<close> enters at 80 and is stopped at 81.\<close>

theorem no_exit_on_entry_candle_witness:
  "(\<exists>p. cur_position (bt_step exact_arith exact_bollinger series_entry_last 80 (bt_init 1000)) = Some p
        \<and> p_entry_date p = 80)
   \<and> (\<exists>t. trades (bt_step exact_arith exact_bollinger series_entry_last 80 (bt_init 1000)) = [t]
        \<and> trade_open t)
   \<and> (\<exists>t. trades (run_trading exact_arith exact_bollinger series_entry_last 1000) = [t]
        \<and> t_date t = 80 \<and> t_close_date t = Some 80 \<and> t_close_reason t = Some Backtest_end)
   \<and> (\<exists>t. trades (run_trading exact_arith exact_bollinger series_stopped 1000) = [t]
        \<and> t_date t = 80 \<and> t_close_date t = Some 81 \<and> t_close_reason t = Some Stop_loss)"
proof -
  have none: "cur_position (bt_init 1000) = None" by (simp add: bt_init_def)
  have tk: "take 81 series_entry_last = series_entry_last"
    by (simp add: series_entry_last_def)
  have sig: "check_entry_signal exact_bollinger series_entry_last"
    by (simp add: exact_bollinger_def bollinger_strategy_def signal_series_entry_last)
  have n80: "series_entry_last ! 80 = breakout_candle"
    by (simp add: series_entry_last_def nth_append)
  have l1: "length series_entry_last = 81" by (simp add: series_entry_last_def)
  have ab: "(\<exists>p. cur_position (bt_step exact_arith exact_bollinger series_entry_last 80 (bt_init 1000))
        = Some p \<and> p_entry_date p = 80)
      \<and> (\<exists>t. trades (bt_step exact_arith exact_bollinger series_entry_last 80 (bt_init 1000)) = [t]
        \<and> trade_open t)"
    using no_exit_on_entry_candle [where s = "bt_init 1000" and strat = exact_bollinger
        and ar = exact_arith and i = 80 and d = series_entry_last and cap = 1000] none sig l1
    by (auto simp: tk n80 breakout_candle_def mk_candle_def bt_init_def)
  let ?t1 = "close_trade exact_arith (Fin (300 / 199)) 80 (Fin 100) Backtest_end
      (Fin (995 / 10)) (Fin (995 / 10)) entry_trade"
  have "\<exists>cd r. t_close_date ?t1 = Some cd \<and> t_close_reason ?t1 = Some r
      \<and> (r = Backtest_end \<longrightarrow> cd = ts (last series_entry_last) \<and> t_date ?t1 \<le> cd)"
    using no_exit_on_entry_candle [where d = series_entry_last and strat = exact_bollinger and ar = exact_arith
        and cap = 1000 and s = "bt_init 1000" and i = 80]
      sorted_series_entry_last
    by (auto simp: run_series_entry_last)
  then have c: "\<exists>t. trades (run_trading exact_arith exact_bollinger series_entry_last 1000) = [t]
        \<and> t_date t = 80 \<and> t_close_date t = Some 80 \<and> t_close_reason t = Some Backtest_end"
    by (simp add: run_series_entry_last close_trade_def entry_trade_def)
  let ?t2 = "stopped_trade"
  have "\<exists>cd r. t_close_date ?t2 = Some cd \<and> t_close_reason ?t2 = Some r
      \<and> (r \<noteq> Backtest_end \<longrightarrow> t_date ?t2 < cd)"
    using no_exit_on_entry_candle [where d = series_stopped and strat = exact_bollinger and ar = exact_arith
        and cap = 1000 and s = "bt_init 1000" and i = 80]
      sorted_series_stopped
    by (auto simp: run_series_stopped)
  then have d: "\<exists>t. trades (run_trading exact_arith exact_bollinger series_stopped 1000) = [t]
        \<and> t_date t = 80 \<and> t_close_date t = Some 81 \<and> t_close_reason t = Some Stop_loss"
    by (simp add: run_series_stopped stopped_trade_def close_trade_def entry_trade_def)
  from ab c d show ?thesis by blast
qed

subsection \<open>The RSI when the average loss is zero\<close>

lemma length_diffs: "length (diffs xs) = length xs - 1"
  by (induction xs rule: diffs.induct) auto

lemma length_diff_series [simp]: "length (diff_series xs) = length xs"
  by (cases xs) (simp_all add: diff_series_def length_diffs)

lemma length_where_gt0 [simp]: "length (where_gt0 ds) = length ds"
  by (simp add: where_gt0_def)

lemma length_where_lt0 [simp]: "length (where_lt0 ds) = length ds"
  by (simp add: where_lt0_def)

lemma where_gt0_nonneg: "x \<in> set (where_gt0 ds) \<Longrightarrow> 0 \<le> x"
  by (auto simp: where_gt0_def split: option.splits)

lemma diffs_replicate: "diffs (replicate n c) = replicate (n - 1) 0"
proof (induction n)
  case 0
  then show ?case by simp
next
  case (Suc n)
  then show ?case by (cases n) simp_all
qed

lemma diffs_snoc: "xs \<noteq> [] \<Longrightarrow> diffs (xs @ [y]) = diffs xs @ [y - last xs]"
  by (induction xs rule: diffs.induct) auto

lemma last_rsi_series:
  assumes "closes \<noteq> []"
  shows "last (rsi_series p closes)
     = rsi_of_rs (fdiv (last (rsi_gain p closes)) (last (rsi_loss p closes)))"
proof -
  have g: "rsi_gain p closes \<noteq> []" and l: "length (rsi_gain p closes) = length (rsi_loss p closes)"
    using assms by (auto simp: rsi_gain_def rsi_loss_def rolling_mean_def)
  have ne: "map2 fdiv (rsi_gain p closes) (rsi_loss p closes) \<noteq> []"
    using g l by (cases "rsi_gain p closes"; cases "rsi_loss p closes") auto
  have "last (rsi_series p closes)
      = rsi_of_rs (last (map2 fdiv (rsi_gain p closes) (rsi_loss p closes)))"
    unfolding rsi_series_def using ne by (rule last_map)
  then show ?thesis
    by (simp only: last_map2 [OF g l])
qed

lemma last_rsi_gain:
  assumes "0 < p" and "p \<le> length closes"
  shows "\<exists>a. last (rsi_gain p closes) = Fin a \<and> 0 \<le> a"
proof -
  let ?g = "where_gt0 (diff_series closes)"
  have "last (rsi_gain p closes) = Fin (sum_list (drop (length ?g - p) ?g) / real p)"
    unfolding rsi_gain_def using assms by (intro last_rolling_mean) simp_all
  moreover have "0 \<le> sum_list (drop (length ?g - p) ?g)"
    by (intro sum_list_nonneg) (auto dest: in_set_dropD where_gt0_nonneg)
  ultimately show ?thesis using assms by simp
qed

lemma rsi_of_rs_infinite: "rsi_of_rs PInf = Fin 100"
  by (simp add: rsi_of_rs_def fsub_def)

lemma rsi_of_rs_nan: "rsi_of_rs NaN = NaN"
  by (simp add: rsi_of_rs_def fsub_def)

lemma flat_loss: "last (rsi_loss 14 (map close (replicate 50 (flat_candle 100)))) = Fin 0"
proof -
  have "last (rolling_mean 14 (map uminus (where_lt0 (diff_series (replicate 50 100)))))
      = Fin (sum_list (drop (50 - 14)
          (map uminus (where_lt0 (diff_series (replicate 50 (100::real)))))) / real 14)"
    using last_rolling_mean [of 14 "map uminus (where_lt0 (diff_series (replicate 50 100)))"]
    by simp
  then show ?thesis
    by (simp add: rsi_loss_def flat_candle_def mk_candle_def diff_series_def diffs_replicate
        where_lt0_def drop_map sum_list_replicate o_def)
qed


lemma flat_gain: "last (rsi_gain 14 (map close (replicate 50 (flat_candle 100)))) = Fin 0"
proof -
  have "last (rolling_mean 14 (where_gt0 (diff_series (replicate 50 100))))
      = Fin (sum_list (drop (50 - 14)
          (where_gt0 (diff_series (replicate 50 (100::real))))) / real 14)"
    using last_rolling_mean [of 14 "where_gt0 (diff_series (replicate 50 100))"]
    by simp
  then show ?thesis
    by (simp add: rsi_gain_def flat_candle_def mk_candle_def diff_series_def diffs_replicate
        where_gt0_def drop_map sum_list_replicate o_def)
qed

lemma rising_closes:
  "map close (replicate 49 (flat_candle 100) @ [flat_candle 110]) = replicate 49 100 @ [110]"
  by (simp add: flat_candle_def mk_candle_def)

lemma rising_diffs: "diff_series (replicate 49 100 @ [110]) = None # map Some (replicate 48 0 @ [10])"
  by (simp add: diff_series_def diffs_snoc diffs_replicate)

lemma rising_loss:
  "last (rsi_loss 14 (map close (replicate 49 (flat_candle 100) @ [flat_candle 110]))) = Fin 0"
proof -
  let ?l = "map uminus (where_lt0 (diff_series (replicate 49 100 @ [110])))"
  have "last (rolling_mean 14 ?l) = Fin (sum_list (drop (length ?l - 14) ?l) / real 14)"
    by (rule last_rolling_mean) simp_all
  then show ?thesis
    unfolding rsi_loss_def rising_closes
    by (simp add: rising_diffs where_lt0_def sum_list_replicate)
qed

lemma rising_gain:
  "last (rsi_gain 14 (map close (replicate 49 (flat_candle 100) @ [flat_candle 110])))
     = Fin (10 / 14)"
proof -
  let ?g = "where_gt0 (diff_series (replicate 49 100 @ [110]))"
  have "last (rolling_mean 14 ?g) = Fin (sum_list (drop (length ?g - 14) ?g) / real 14)"
    by (rule last_rolling_mean) simp_all
  then show ?thesis
    unfolding rsi_gain_def rising_closes
    by (simp add: rising_diffs where_gt0_def sum_list_replicate)
qed

text \<open>Claim C6 says that the RSI is exactly 100 whenever the average loss is 0, also
  when the average gain is 0. On a flat series of 50 candles both averages are 0,
  the quotient \<open>gain / loss\<close> is 0 / 0 and the RSI the code computes is NaN.\<close>

theorem rsi_zero_average_loss_counterexample:
  "last (rsi_loss 14 (map close (replicate 50 (flat_candle 100)))) = Fin 0
   \<and> last (rsi_series 14 (map close (replicate 50 (flat_candle 100)))) = NaN
   \<and> last (rsi_series 14 (map close (replicate 50 (flat_candle 100)))) \<noteq> Fin 100"
proof -
  have r: "last (rsi_series 14 (map close (replicate 50 (flat_candle 100))))
      = rsi_of_rs (fdiv (last (rsi_gain 14 (map close (replicate 50 (flat_candle 100)))))
          (last (rsi_loss 14 (map close (replicate 50 (flat_candle 100))))))"
    by (rule last_rsi_series) simp
  have n: "last (rsi_series 14 (map close (replicate 50 (flat_candle 100)))) = NaN"
    unfolding r flat_gain flat_loss by (simp add: rsi_of_rs_nan)
  show ?thesis unfolding n using flat_loss by simp
qed

text \<open>Claim C6, amended. Where the rolling average loss is 0 at the last index, the
  code divides by it as doubles are divided, without raising: when the average gain
  is positive the quotient is infinite and the RSI is exactly 100; when the average
  gain is 0 as well the RSI is NaN. The NaN does not leave the strategy: a
  comparison with NaN is false, so both entry signals that read the RSI return
  \<open>False\<close> (as they do for an RSI of 100).\<close>

theorem rsi_zero_average_loss:
  assumes "14 \<le> length cs" and "last (rsi_loss 14 (map close cs)) = Fin 0"
  shows "(last (rsi_gain 14 (map close cs)) \<noteq> Fin 0 \<longrightarrow>
            last (rsi_series 14 (map close cs)) = Fin 100)
       \<and> (last (rsi_gain 14 (map close cs)) = Fin 0 \<longrightarrow>
            last (rsi_series 14 (map close cs)) = NaN)
       \<and> \<not> momentum_check_entry_signal cs
       \<and> \<not> mean_reversion_check_entry_signal cs"
proof -
  let ?xs = "map close cs"
  from assms(1) have ne: "?xs \<noteq> []" by auto
  from assms(1) obtain a where a: "last (rsi_gain 14 ?xs) = Fin a" "0 \<le> a"
    using last_rsi_gain [of 14 ?xs] by auto
  have r: "last (rsi_series 14 ?xs) = rsi_of_rs (fdiv (Fin a) (Fin 0))"
    by (simp add: last_rsi_series [OF ne] a assms(2))
  have pos: "a \<noteq> 0 \<Longrightarrow> last (rsi_series 14 ?xs) = Fin 100"
    using a(2) by (simp add: r rsi_of_rs_infinite)
  have zero: "a = 0 \<Longrightarrow> last (rsi_series 14 ?xs) = NaN"
    by (simp add: r rsi_of_rs_nan)
  have nolt: "\<not> flt (last (rsi_series 14 ?xs)) (Fin t)" if "t \<le> 100" for t
    using pos zero that by (cases "a = 0") auto
  have m: "\<not> momentum_check_entry_signal cs"
    using nolt [of 30] by (simp add: momentum_check_entry_signal_def Let_def)
  have v: "\<not> mean_reversion_check_entry_signal cs"
    using nolt [of 20] by (simp add: mean_reversion_check_entry_signal_def Let_def split_beta)
  from pos zero m v a show ?thesis by auto
qed

text \<open>49 candles at 100 and one at 110 have average loss 0 and average gain 10/14:
  the RSI is 100. The flat series has RSI NaN, and no entry signal.\<close>

theorem rsi_zero_average_loss_witness:
  "last (rsi_series 14 (map close (replicate 49 (flat_candle 100) @ [flat_candle 110])))
     = Fin 100
   \<and> last (rsi_series 14 (map close (replicate 50 (flat_candle 100)))) = NaN
   \<and> \<not> momentum_check_entry_signal (replicate 50 (flat_candle 100))
   \<and> \<not> mean_reversion_check_entry_signal (replicate 50 (flat_candle 100))"
proof -
  have l1: "14 \<le> length (replicate 49 (flat_candle 100) @ [flat_candle 110])" by simp
  have l2: "14 \<le> length (replicate 50 (flat_candle 100))" by simp
  have a: "last (rsi_series 14 (map close (replicate 49 (flat_candle 100) @ [flat_candle 110])))
     = Fin 100"
    using rsi_zero_average_loss [OF l1 rising_loss, unfolded rising_gain] by simp
  have b: "last (rsi_series 14 (map close (replicate 50 (flat_candle 100)))) = NaN
   \<and> \<not> momentum_check_entry_signal (replicate 50 (flat_candle 100))
   \<and> \<not> mean_reversion_check_entry_signal (replicate 50 (flat_candle 100))"
    using rsi_zero_average_loss [OF l2 flat_loss, unfolded flat_gain] by simp
  from a b show ?thesis by simp
qed

subsection \<open>The universe scan\<close>

lemma keys_add_score:
  "map se_symbol (add_score ar w scores p)
     = (if symbol (snd p) \<in> set (map se_symbol scores) then map se_symbol scores
        else map se_symbol scores @ [symbol (snd p)])"
  by (auto simp: add_score_def Let_def o_def intro!: map_cong)

lemma keys_foldl_add_score:
  "distinct (map se_symbol scores) \<Longrightarrow>
   distinct (map se_symbol (foldl (add_score ar w) scores ps))
   \<and> set (map se_symbol (foldl (add_score ar w) scores ps))
       = set (map se_symbol scores) \<union> symbol ` snd ` set ps"
proof (induction ps arbitrary: scores)
  case Nil
  then show ?case by simp
next
  case (Cons p ps)
  have d: "distinct (map se_symbol (add_score ar w scores p))"
    using Cons.prems by (simp add: keys_add_score)
  have s: "set (map se_symbol (add_score ar w scores p))
      = set (map se_symbol scores) \<union> {symbol (snd p)}"
    by (auto simp: keys_add_score)
  from Cons.IH [OF d] show ?case
    unfolding foldl_Cons s by auto
qed

lemma length_insort_desc [simp]: "length (insort_desc key x xs) = Suc (length xs)"
  by (induction xs) simp_all

lemma length_sorted_desc_by [simp]: "length (sorted_desc_by key xs) = length xs"
  by (induction xs) (simp_all add: sorted_desc_by_def)

lemma snd_enumerate: "snd ` set (enumerate k xs) = set xs"
  by (metis map_snd_enumerate set_map)

lemma length_calculate_weighted_score:
  "length (calculate_weighted_score ar cl vl cw vw) = card (symbol ` (set cl \<union> set vl))"
proof -
  let ?s1 = "foldl (add_score ar cw) [] (enumerate 0 cl)"
  let ?s2 = "foldl (add_score ar vw) ?s1 (enumerate 0 vl)"
  have k1: "distinct (map se_symbol ?s1)" "set (map se_symbol ?s1) = symbol ` set cl"
    using keys_foldl_add_score [of "[]" ar cw "enumerate 0 cl"] by (simp_all add: snd_enumerate)
  have k2: "distinct (map se_symbol ?s2)"
    "set (map se_symbol ?s2) = symbol ` set cl \<union> symbol ` set vl"
    using keys_foldl_add_score [OF k1(1), of ar vw "enumerate 0 vl"] k1(2)
    by (simp_all add: snd_enumerate)
  have "length (calculate_weighted_score ar cl vl cw vw) = length (map se_symbol ?s2)"
    by (simp add: calculate_weighted_score_def Let_def)
  also have "\<dots> = card (set (map se_symbol ?s2))"
    using k2(1) by (rule distinct_card [symmetric])
  also have "\<dots> = card (symbol ` (set cl \<union> set vl))"
    unfolding k2(2) by (simp add: image_Un)
  finally show ?thesis .
qed

lemma take_all_sorted_desc: "length xs \<le> n \<Longrightarrow> set (take n (sorted_desc f xs)) = set xs"
  by (simp add: sorted_desc_def)

lemma take_all_sorted_asc: "length xs \<le> n \<Longrightarrow> set (take n (sorted_asc f xs)) = set xs"
  by (simp add: sorted_asc_def)

lemma drop_all_sorted_desc:
  "length xs \<le> n \<Longrightarrow>
   set (drop (length (sorted_desc f xs) - n) (sorted_desc f xs)) = set xs"
  by (simp add: sorted_desc_def)

text \<open>Claim C8. For every ticker snapshot: under UPTREND the result has at most 5
  entries, all long; under DOWNTREND at most 5, all short; under SIDEWAYS (the
  branch of every other regime string) at most 10, at most 5 long entries followed
  by at most 5 short ones. The scan is defined on every snapshot: with at most 10
  USDT pairs the windows hold all of them and each side has min(5, k) entries, where
  k is the number of distinct USDT symbols.\<close>

theorem scan_universe_shape:
  "let R = scan_universe ar market_regime tickers;
       U = filter (\<lambda>t. endswith (symbol t) ''/USDT'') tickers;
       k = card (symbol ` set U)
   in (market_regime = ''UPTREND'' \<longrightarrow>
         length R \<le> 5 \<and> (\<forall>e\<in>set R. snd e = ''long'')
         \<and> (length U \<le> 10 \<longrightarrow> length R = min 5 k))
    \<and> (market_regime = ''DOWNTREND'' \<longrightarrow>
         length R \<le> 5 \<and> (\<forall>e\<in>set R. snd e = ''short'')
         \<and> (length U \<le> 10 \<longrightarrow> length R = min 5 k))
    \<and> (market_regime \<noteq> ''UPTREND'' \<and> market_regime \<noteq> ''DOWNTREND'' \<longrightarrow>
         length R \<le> 10
         \<and> (\<exists>L S. R = L @ S \<and> length L \<le> 5 \<and> length S \<le> 5
               \<and> (\<forall>e\<in>set L. snd e = ''long'') \<and> (\<forall>e\<in>set S. snd e = ''short'')
               \<and> (length U \<le> 10 \<longrightarrow> length L = min 5 k \<and> length S = min 5 k)))"
proof -
  let ?U = "filter (\<lambda>t. endswith (symbol t) ''/USDT'') tickers"
  let ?k = "card (symbol ` set ?U)"
  have up: "market_regime = ''UPTREND'' \<longrightarrow>
         length (scan_universe ar market_regime tickers) \<le> 5
         \<and> (\<forall>e\<in>set (scan_universe ar market_regime tickers). snd e = ''long'')
         \<and> (length ?U \<le> 10 \<longrightarrow> length (scan_universe ar market_regime tickers) = min 5 ?k)"
    by (auto simp: scan_universe_def Let_def length_calculate_weighted_score
        take_all_sorted_desc min_def)
  have down: "market_regime = ''DOWNTREND'' \<longrightarrow>
         length (scan_universe ar market_regime tickers) \<le> 5
         \<and> (\<forall>e\<in>set (scan_universe ar market_regime tickers). snd e = ''short'')
         \<and> (length ?U \<le> 10 \<longrightarrow> length (scan_universe ar market_regime tickers) = min 5 ?k)"
    by (auto simp: scan_universe_def Let_def length_calculate_weighted_score
        take_all_sorted_desc take_all_sorted_asc min_def)
  have side: "market_regime \<noteq> ''UPTREND'' \<and> market_regime \<noteq> ''DOWNTREND'' \<longrightarrow>
         length (scan_universe ar market_regime tickers) \<le> 10
         \<and> (\<exists>L S. scan_universe ar market_regime tickers = L @ S
               \<and> length L \<le> 5 \<and> length S \<le> 5
               \<and> (\<forall>e\<in>set L. snd e = ''long'') \<and> (\<forall>e\<in>set S. snd e = ''short'')
               \<and> (length ?U \<le> 10 \<longrightarrow> length L = min 5 ?k \<and> length S = min 5 ?k))"
  proof (intro impI, elim conjE)
    assume r: "market_regime \<noteq> ''UPTREND''" "market_regime \<noteq> ''DOWNTREND''"
    let ?sc = "sorted_desc change_pct ?U"
    let ?tv = "take 10 (sorted_desc quote_volume ?U)"
    let ?L = "map (\<lambda>item. (symbol item, ''long''))
        (take 5 (calculate_weighted_score ar (take 10 ?sc) ?tv (d_lit ar 0.6) (d_lit ar 0.4)))"
    let ?S = "map (\<lambda>item. (symbol item, ''short''))
        (take 5 (calculate_weighted_score ar (drop (length ?sc - 10) ?sc) ?tv
           (d_lit ar 0.6) (d_lit ar 0.4)))"
    have R: "scan_universe ar market_regime tickers = ?L @ ?S"
      using r by (simp add: scan_universe_def Let_def)
    have lL: "length ?L \<le> 5" and lS: "length ?S \<le> 5" by simp_all
    have dL: "\<forall>e\<in>set ?L. snd e = ''long''" and dS: "\<forall>e\<in>set ?S. snd e = ''short''"
      by auto
    have clip: "length ?U \<le> 10 \<longrightarrow> length ?L = min 5 ?k \<and> length ?S = min 5 ?k"
      by (auto simp: length_calculate_weighted_score take_all_sorted_desc
          drop_all_sorted_desc min_def)
    have "length (scan_universe ar market_regime tickers) \<le> 10"
      unfolding R using lL lS by simp
    moreover have "\<exists>L S. scan_universe ar market_regime tickers = L @ S
               \<and> length L \<le> 5 \<and> length S \<le> 5
               \<and> (\<forall>e\<in>set L. snd e = ''long'') \<and> (\<forall>e\<in>set S. snd e = ''short'')
               \<and> (length ?U \<le> 10 \<longrightarrow> length L = min 5 ?k \<and> length S = min 5 ?k)"
      using R lL lS dL dS clip by blast
    ultimately show "length (scan_universe ar market_regime tickers) \<le> 10
         \<and> (\<exists>L S. scan_universe ar market_regime tickers = L @ S
               \<and> length L \<le> 5 \<and> length S \<le> 5
               \<and> (\<forall>e\<in>set L. snd e = ''long'') \<and> (\<forall>e\<in>set S. snd e = ''short'')
               \<and> (length ?U \<le> 10 \<longrightarrow> length L = min 5 ?k \<and> length S = min 5 ?k))"
      by blast
  qed
  from up down side show ?thesis unfolding Let_def by blast
qed


text \<open>With three USDT pairs each side has three entries (scores in exact
  arithmetic: 9.2, 9.0 and 8.8).\<close>

lemma sample_usdt_pairs:
  "filter (\<lambda>t. endswith (symbol t) ''/USDT'') sample_tickers
     = [mk_ticker ''BTC/USDT'' 5 100, mk_ticker ''ETH/USDT'' (- 2) 300,
        mk_ticker ''SOL/USDT'' 1 200]"
  by (simp add: sample_tickers_def mk_ticker_def endswith_def)

lemma sample_symbols:
  "card (symbol ` set (filter (\<lambda>t. endswith (symbol t) ''/USDT'') sample_tickers)) = 3"
  unfolding sample_usdt_pairs by (simp add: mk_ticker_def)

lemma scan_sample_uptrend:
  "scan_universe exact_arith ''UPTREND'' sample_tickers
     = [(''BTC/USDT'', ''long''), (''SOL/USDT'', ''long''), (''ETH/USDT'', ''long'')]"
  unfolding scan_universe_def sample_usdt_pairs
  by (simp add: Let_def mk_ticker_def sorted_desc_def calculate_weighted_score_def
      add_score_def sorted_desc_by_def)

lemma scan_sample_downtrend:
  "scan_universe exact_arith ''DOWNTREND'' sample_tickers
     = [(''ETH/USDT'', ''short''), (''SOL/USDT'', ''short''), (''BTC/USDT'', ''short'')]"
  unfolding scan_universe_def sample_usdt_pairs
  by (simp add: Let_def mk_ticker_def sorted_desc_def sorted_asc_def
      calculate_weighted_score_def add_score_def sorted_desc_by_def)

lemma scan_sample_sideways:
  "scan_universe exact_arith ''SIDEWAYS'' sample_tickers
     = [(''BTC/USDT'', ''long''), (''SOL/USDT'', ''long''), (''ETH/USDT'', ''long''),
        (''BTC/USDT'', ''short''), (''SOL/USDT'', ''short''), (''ETH/USDT'', ''short'')]"
  unfolding scan_universe_def sample_usdt_pairs
  by (simp add: Let_def mk_ticker_def sorted_desc_def calculate_weighted_score_def
      add_score_def sorted_desc_by_def)

theorem scan_universe_shape_witness:
  "length (scan_universe exact_arith ''UPTREND'' sample_tickers) = 3
   \<and> length (scan_universe exact_arith ''DOWNTREND'' sample_tickers) = 3
   \<and> length (scan_universe exact_arith ''SIDEWAYS'' sample_tickers) \<le> 10
   \<and> scan_universe exact_arith ''UPTREND'' sample_tickers
       = [(''BTC/USDT'', ''long''), (''SOL/USDT'', ''long''), (''ETH/USDT'', ''long'')]
   \<and> scan_universe exact_arith ''SIDEWAYS'' sample_tickers
       = [(''BTC/USDT'', ''long''), (''SOL/USDT'', ''long''), (''ETH/USDT'', ''long''),
          (''BTC/USDT'', ''short''), (''SOL/USDT'', ''short''), (''ETH/USDT'', ''short'')]"
proof -
  have l: "length (filter (\<lambda>t. endswith (symbol t) ''/USDT'') sample_tickers) \<le> 10"
    unfolding sample_usdt_pairs by simp
  have a: "length (scan_universe exact_arith ''UPTREND'' sample_tickers) = 3"
    using scan_universe_shape [of exact_arith "''UPTREND''" sample_tickers,
        unfolded Let_def sample_symbols]
      l by simp
  have b: "length (scan_universe exact_arith ''DOWNTREND'' sample_tickers) = 3"
    using scan_universe_shape [of exact_arith "''DOWNTREND''" sample_tickers,
        unfolded Let_def sample_symbols] l by simp
  have c: "length (scan_universe exact_arith ''SIDEWAYS'' sample_tickers) \<le> 10"
    using scan_universe_shape [of exact_arith "''SIDEWAYS''" sample_tickers]
    by (simp add: Let_def)
  from a b c scan_sample_uptrend scan_sample_sideways show ?thesis by simp
qed

end
